theory Spec2Isabelle
  imports Main
begin

section \<open>Data model (pkg/apis/kubelitedb/v1/types.go)\<close>

text \<open>
  The custom resource. \<open>TypeMeta\<close> is embedded as the two fields \<open>Kind\<close> and
  \<open>APIVersion\<close>; of the embedded \<open>ObjectMeta\<close> the controller reads \<open>Namespace\<close>
  and \<open>Name\<close> only, and these are the fields kept here.
\<close>

record ObjectMeta =
  Name :: string
  Namespace :: string

record SQLiteInstanceSpec =
  DbName :: string
  Storage :: string
  Replicas :: int

record SQLiteInstanceStatus =
  Phase :: string

record SQLiteInstance =
  Kind :: string
  APIVersion :: string
  Meta :: ObjectMeta
  Spec :: SQLiteInstanceSpec
  Status :: SQLiteInstanceStatus

section \<open>Errors, queue items, object references\<close>

text \<open>
  A Go \<open>error\<close> value. \<open>NotFoundError\<close> is an API status error whose reason is
  \<open>NotFound\<close> (the errors for which \<open>errors.IsNotFound\<close> answers true); every other
  error, also one built by \<open>fmt.Errorf\<close>, is an \<open>OtherError\<close>. The string is the
  text returned by \<open>Error()\<close>.
\<close>

datatype error = NotFoundError string | OtherError string

fun IsNotFound :: "error \<Rightarrow> bool" where
  "IsNotFound (NotFoundError _) = True"
| "IsNotFound (OtherError _) = False"

fun Error :: "error \<Rightarrow> string" where
  "Error (NotFoundError m) = m"
| "Error (OtherError m) = m"

definition Errorf :: "string \<Rightarrow> error" where
  "Errorf m = OtherError m"

text \<open>
  The work queue carries \<open>interface{}\<close> values. A value is either a string or something
  else; of a non-string value only its \<open>%#v\<close> rendering is used by the controller.
\<close>

datatype item = StringItem string | OtherItem string

text \<open>
  A pointer to a \<open>SQLiteInstance\<close>: either to the object the shared informer cache holds
  under a namespace and a name, or to an object the controller allocated itself.
\<close>

datatype ref = CacheRef string string | LocalRef nat

text \<open>
  The payload of a change notification (\<open>interface{}\<close>): an object, the tombstone the
  informer delivers for a missed delete, a \<open>cache.ExplicitKey\<close>, or any other value.
\<close>

datatype payload =
    Object SQLiteInstance
  | Tombstone string SQLiteInstance
  | ExplicitKey string
  | Opaque string

text \<open>How a call ends: it returns a value, it panics, or it never returns.\<close>

datatype 'a outcome = Returns 'a | Panics | Blocks

section \<open>The controller's collaborators\<close>

text \<open>
  Every call the controller makes on a collaborator is appended to a trace, in the order
  of the calls. \<open>ObjectUpdate\<close> is the generic \<open>Update\<close> of the typed client, listed
  so that its absence from a trace can be stated.
\<close>

datatype call =
    QAdd item
  | QAddRateLimited item
  | QForget item
  | QDone item
  | QShutDown
  | ErrorSink error
  | StatusUpdate string ref SQLiteInstance
  | ObjectUpdate string ref SQLiteInstance
  | EventRecorded ref string string string
  | LogInfo string
  | WorkerStarted

text \<open>
  The state the controller runs against.
  \<^item> \<open>cache\<close>: the informer's store, keyed by namespace and name;
    \<open>lister_fault\<close>: the lookups that fail in the store itself.
  \<^item> \<open>locals\<close>: the objects allocated by the controller, \<open>LocalRef i\<close> being the
    \<open>i\<close>-th of them.
  \<^item> \<open>wq_feed\<close>: what the coming calls of \<open>workqueue.Get\<close> return, in order; when it
    is used up, \<open>Get\<close> blocks.
  \<^item> \<open>wq_failures\<close>: the rate limiter's count of requeues per item.
  \<^item> \<open>api_fault\<close>: the error, if any, of the \<open>n\<close>-th \<open>UpdateStatus\<close> call;
    \<open>api_calls\<close>: the number of such calls made so far.
\<close>

record world =
  cache :: "string \<times> string \<Rightarrow> SQLiteInstance option"
  lister_fault :: "string \<times> string \<Rightarrow> error option"
  locals :: "SQLiteInstance list"
  wq_feed :: "(item \<times> bool) list"
  wq_failures :: "item \<Rightarrow> nat"
  api_fault :: "nat \<Rightarrow> error option"
  api_calls :: nat
  trace :: "call list"

text \<open>
  The library functions and the signals the controller is given: the two key functions of
  the cache package, the result of \<open>cache.WaitForCacheSync(ctx.Done(), ...)\<close>, whether
  \<open>ctx.Done()\<close> ever fires, and the two constants of the rate limiter.
\<close>

record env =
  SplitMetaNamespaceKey :: "string \<Rightarrow> error + (string \<times> string)"
  MetaNamespaceKeyFunc :: "payload \<Rightarrow> error + string"
  WaitForCacheSync :: bool
  ctx_Done :: bool
  baseDelay :: nat
  maxDelay :: nat

definition record_call :: "world \<Rightarrow> call \<Rightarrow> world" where
  "record_call w c = w\<lparr>trace := trace w @ [c]\<rparr>"

text \<open>The calls made between two states.\<close>

definition calls_since :: "world \<Rightarrow> world \<Rightarrow> call list" where
  "calls_since w w' = drop (length (trace w)) (trace w')"

subsection \<open>Work queue\<close>

definition workqueue_Get :: "world \<Rightarrow> ((item \<times> bool) \<times> world) option" where
  "workqueue_Get w =
     (case wq_feed w of
        [] \<Rightarrow> None
      | r # rest \<Rightarrow> Some (r, w\<lparr>wq_feed := rest\<rparr>))"

definition workqueue_Add :: "world \<Rightarrow> item \<Rightarrow> world" where
  "workqueue_Add w x = record_call w (QAdd x)"

definition workqueue_Done :: "world \<Rightarrow> item \<Rightarrow> world" where
  "workqueue_Done w x = record_call w (QDone x)"

definition workqueue_ShutDown :: "world \<Rightarrow> world" where
  "workqueue_ShutDown w = record_call w QShutDown"

text \<open>
  Modelled from the spec: the rate limiter of the work queue (the queue is a library type,
  its code is not part of the sources). Section 4.1: \<open>AddRateLimited\<close> requeues the key
  after an exponential backoff delay, the base delay doubling per attempt and capped at a
  maximum; \<open>Forget\<close> resets the backoff counter of the key.
\<close>

definition backoff_delay :: "env \<Rightarrow> nat \<Rightarrow> nat" where
  "backoff_delay env n = min (maxDelay env) (baseDelay env * 2 ^ n)"

definition workqueue_AddRateLimited :: "world \<Rightarrow> item \<Rightarrow> world" where
  "workqueue_AddRateLimited w x =
     record_call (w\<lparr>wq_failures := (wq_failures w)(x := Suc (wq_failures w x))\<rparr>)
       (QAddRateLimited x)"

definition workqueue_Forget :: "world \<Rightarrow> item \<Rightarrow> world" where
  "workqueue_Forget w x =
     record_call (w\<lparr>wq_failures := (wq_failures w)(x := 0)\<rparr>) (QForget x)"

text \<open>The delay the next \<open>AddRateLimited\<close> of an item would wait.\<close>

definition next_delay :: "env \<Rightarrow> world \<Rightarrow> item \<Rightarrow> nat" where
  "next_delay env w x = backoff_delay env (wq_failures w x)"

subsection \<open>Error sink, logger, event recorder\<close>

definition HandleError :: "world \<Rightarrow> error \<Rightarrow> world" where
  "HandleError w err = record_call w (ErrorSink err)"

text \<open>Of a log line the message is recorded, not its key-value pairs.\<close>

definition logger_Info :: "world \<Rightarrow> string \<Rightarrow> world" where
  "logger_Info w msg = record_call w (LogInfo msg)"

definition EventTypeNormal :: string where
  "EventTypeNormal = ''Normal''"

definition SuccessSynced :: string where
  "SuccessSynced = ''Synced''"

definition MessageResourceSynced :: string where
  "MessageResourceSynced = ''SQLiteInstance synced successfully''"

definition recorder_Event :: "world \<Rightarrow> ref \<Rightarrow> string \<Rightarrow> string \<Rightarrow> string \<Rightarrow> world" where
  "recorder_Event w obj eventtype reason message =
     record_call w (EventRecorded obj eventtype reason message)"

subsection \<open>Objects behind pointers\<close>

fun deref :: "world \<Rightarrow> ref \<Rightarrow> SQLiteInstance option" where
  "deref w (CacheRef namespace name) = cache w (namespace, name)"
| "deref w (LocalRef i) = (if i < length (locals w) then Some (locals w ! i) else None)"

text \<open>A write through a pointer; \<open>None\<close> is the nil dereference.\<close>

fun assign :: "world \<Rightarrow> ref \<Rightarrow> (SQLiteInstance \<Rightarrow> SQLiteInstance) \<Rightarrow> world option" where
  "assign w (CacheRef namespace name) f =
     (case cache w (namespace, name) of
        None \<Rightarrow> None
      | Some v \<Rightarrow> Some (w\<lparr>cache := (cache w)((namespace, name) \<mapsto> f v)\<rparr>))"
| "assign w (LocalRef i) f =
     (if i < length (locals w)
      then Some (w\<lparr>locals := (locals w)[i := f (locals w ! i)]\<rparr>)
      else None)"

text \<open>
  Modelled from the spec: \<open>DeepCopy\<close> of the generated deep-copy code, which is not part
  of the sources. Section 4.4 step 4 and section 5: the status update targets a deep copy
  of the object, a new object that shares nothing with the cached one. A nil receiver
  gives nil (\<open>None\<close>).
\<close>

definition DeepCopy :: "world \<Rightarrow> ref \<Rightarrow> (ref \<times> world) option" where
  "DeepCopy w r =
     (case deref w r of
        None \<Rightarrow> None
      | Some v \<Rightarrow> Some (LocalRef (length (locals w)), w\<lparr>locals := locals w @ [v]\<rparr>))"

subsection \<open>Lister and typed client\<close>

text \<open>
  Modelled from the spec: \<open>Get\<close> of the generated lister, which is not part of the
  sources. Section 6: the cache lookup answers with the object, with not-found, or with
  an error. A found object is returned as a pointer into the cache.
\<close>

definition lister_Get :: "world \<Rightarrow> string \<Rightarrow> string \<Rightarrow> error + ref" where
  "lister_Get w namespace name =
     (case lister_fault w (namespace, name) of
        Some err \<Rightarrow> Inl err
      | None \<Rightarrow>
          (case cache w (namespace, name) of
             None \<Rightarrow> Inl (NotFoundError (''sqliteinstance '' @ name @ '' not found''))
           | Some _ \<Rightarrow> Inr (CacheRef namespace name)))"

text \<open>
  \<open>UpdateStatus\<close> of the typed client: the call is recorded with the namespace, the
  pointer it was given and the object behind it at that moment; its error is the one the
  API server answers this call with. The object it returns is discarded by the caller.
\<close>

definition UpdateStatus ::
  "world \<Rightarrow> string \<Rightarrow> ref \<Rightarrow> SQLiteInstance \<Rightarrow> error option \<times> world" where
  "UpdateStatus w namespace r obj =
     (api_fault w (api_calls w),
      record_call (w\<lparr>api_calls := Suc (api_calls w)\<rparr>) (StatusUpdate namespace r obj))"

section \<open>The controller\<close>

subsection \<open>updateSQLiteInstanceStatus\<close>

definition set_Phase :: "string \<Rightarrow> SQLiteInstance \<Rightarrow> SQLiteInstance" where
  "set_Phase p obj = obj\<lparr>Status := (Status obj)\<lparr>Phase := p\<rparr>\<rparr>"

definition updateSQLiteInstanceStatus ::
  "world \<Rightarrow> ref \<Rightarrow> error option outcome \<times> world" where
  "updateSQLiteInstanceStatus w sqliteInstance =
     (case DeepCopy w sqliteInstance of
        None \<Rightarrow> (Panics, w)
      | Some (sqliteInstanceCopy, w1) \<Rightarrow>
          (case assign w1 sqliteInstanceCopy (set_Phase ''Running'') of
             None \<Rightarrow> (Panics, w1)
           | Some w2 \<Rightarrow>
               (case deref w2 sqliteInstance of
                  None \<Rightarrow> (Panics, w2)
                | Some orig \<Rightarrow>
                    (case deref w2 sqliteInstanceCopy of
                       None \<Rightarrow> (Panics, w2)
                     | Some cp \<Rightarrow>
                         (case UpdateStatus w2 (Namespace (Meta orig)) sqliteInstanceCopy cp of
                            (err, w3) \<Rightarrow> (Returns err, w3))))))"

subsection \<open>syncHandler\<close>

definition syncHandler :: "env \<Rightarrow> world \<Rightarrow> string \<Rightarrow> error option outcome \<times> world" where
  "syncHandler env w key =
     (case SplitMetaNamespaceKey env key of
        Inl err \<Rightarrow>
          (Returns None, HandleError w (Errorf (''invalid resource key: '' @ key)))
      | Inr (namespace, name) \<Rightarrow>
          (case lister_Get w namespace name of
             Inl err \<Rightarrow>
               (if IsNotFound err
                then (Returns None,
                      HandleError w
                        (Errorf (''sqliteinstance '' @ [CHR 0x27] @ key @ [CHR 0x27]
                                 @ '' in work queue no longer exists'')))
                else (Returns (Some err), w))
           | Inr sqliteInstance \<Rightarrow>
               (case updateSQLiteInstanceStatus w sqliteInstance of
                  (Returns (Some err), w1) \<Rightarrow> (Returns (Some err), w1)
                | (Returns None, w1) \<Rightarrow>
                    (Returns None,
                     recorder_Event w1 sqliteInstance EventTypeNormal SuccessSynced
                       MessageResourceSynced)
                | (Panics, w1) \<Rightarrow> (Panics, w1)
                | (Blocks, w1) \<Rightarrow> (Blocks, w1))))"

subsection \<open>processNextWorkItem\<close>

text \<open>
  The function literal of \<open>processNextWorkItem\<close>, without its deferred call.
\<close>

definition process_body :: "env \<Rightarrow> world \<Rightarrow> item \<Rightarrow> error option outcome \<times> world" where
  "process_body env w obj =
     (case obj of
        OtherItem v \<Rightarrow>
          (Returns None,
           HandleError (workqueue_Forget w obj)
             (Errorf (''expected string in workqueue but got '' @ v)))
      | StringItem key \<Rightarrow>
          (case syncHandler env w key of
             (Returns (Some err), w1) \<Rightarrow>
               (Returns (Some (Errorf (''error syncing '' @ [CHR 0x27] @ key @ [CHR 0x27]
                                       @ '': '' @ Error err @ '', requeuing''))),
                workqueue_AddRateLimited w1 (StringItem key))
           | (Returns None, w1) \<Rightarrow>
               (Returns None, logger_Info (workqueue_Forget w1 obj) ''Successfully synced'')
           | (Panics, w1) \<Rightarrow> (Panics, w1)
           | (Blocks, w1) \<Rightarrow> (Blocks, w1)))"

text \<open>
  The function literal with \<open>defer c.workqueue.Done(obj)\<close>: the deferred call runs when
  the body returns and when it panics, not when it never ends.
\<close>

definition process_item :: "env \<Rightarrow> world \<Rightarrow> item \<Rightarrow> error option outcome \<times> world" where
  "process_item env w obj =
     (case process_body env w obj of
        (Blocks, w1) \<Rightarrow> (Blocks, w1)
      | (r, w1) \<Rightarrow> (r, workqueue_Done w1 obj))"

definition processNextWorkItem :: "env \<Rightarrow> world \<Rightarrow> bool outcome \<times> world" where
  "processNextWorkItem env w =
     (case workqueue_Get w of
        None \<Rightarrow> (Blocks, w)
      | Some ((obj, shutdown), w0) \<Rightarrow>
          (if shutdown then (Returns False, w0)
           else
             (case process_item env w0 obj of
                (Returns (Some err), w1) \<Rightarrow> (Returns True, HandleError w1 err)
              | (Returns None, w1) \<Rightarrow> (Returns True, w1)
              | (Panics, w1) \<Rightarrow> (Panics, w1)
              | (Blocks, w1) \<Rightarrow> (Blocks, w1))))"

subsection \<open>runWorker\<close>

text \<open>
  The loop \<open>for c.processNextWorkItem(ctx) {}\<close>. Each round takes one answer of
  \<open>Get\<close> from the feed, so the loop ends; its termination is proved below, once
  \<open>processNextWorkItem\<close> is known to consume the feed.
\<close>

function runWorker :: "env \<Rightarrow> world \<Rightarrow> unit outcome \<times> world" where
  "runWorker env w =
     (case processNextWorkItem env w of
        (Returns b, w') \<Rightarrow> if b then runWorker env w' else (Returns (), w')
      | (Panics, w') \<Rightarrow> (Panics, w')
      | (Blocks, w') \<Rightarrow> (Blocks, w'))"
  by pat_completeness auto

subsection \<open>enqueueSQLiteInstance and the event handlers\<close>

definition enqueueSQLiteInstance :: "env \<Rightarrow> world \<Rightarrow> payload \<Rightarrow> world" where
  "enqueueSQLiteInstance env w obj =
     (case MetaNamespaceKeyFunc env obj of
        Inl err \<Rightarrow> HandleError w err
      | Inr key \<Rightarrow> workqueue_Add w (StringItem key))"

text \<open>The three handlers \<open>NewController\<close> registers with the informer.\<close>

definition AddFunc :: "env \<Rightarrow> world \<Rightarrow> payload \<Rightarrow> world" where
  "AddFunc env w obj = enqueueSQLiteInstance env w obj"

definition UpdateFunc :: "env \<Rightarrow> world \<Rightarrow> payload \<Rightarrow> payload \<Rightarrow> world" where
  "UpdateFunc env w old new = enqueueSQLiteInstance env w new"

definition DeleteFunc :: "env \<Rightarrow> world \<Rightarrow> payload \<Rightarrow> world" where
  "DeleteFunc env w obj = enqueueSQLiteInstance env w obj"

text \<open>
  The change feed: the informer calls the handler registered for the kind of each
  notification, one notification after the other.
\<close>

datatype notification = Added payload | Updated payload payload | Deleted payload

fun handle :: "env \<Rightarrow> world \<Rightarrow> notification \<Rightarrow> world" where
  "handle env w (Added obj) = AddFunc env w obj"
| "handle env w (Updated old new) = UpdateFunc env w old new"
| "handle env w (Deleted obj) = DeleteFunc env w obj"

fun dispatch :: "env \<Rightarrow> world \<Rightarrow> notification list \<Rightarrow> world" where
  "dispatch env w [] = w"
| "dispatch env w (n # ns) = dispatch env (handle env w n) ns"

subsection \<open>Run\<close>

text \<open>
  \<open>go wait.UntilWithContext(ctx, c.runWorker, time.Second)\<close>: the launch of a worker
  is recorded; the workers themselves run beside \<open>Run\<close>.
\<close>

definition go_runWorker :: "world \<Rightarrow> world" where
  "go_runWorker w = record_call w WorkerStarted"

function launch_workers :: "int \<Rightarrow> int \<Rightarrow> world \<Rightarrow> world" where
  "launch_workers i workers w =
     (if i < workers then launch_workers (i + 1) workers (go_runWorker w) else w)"
  by pat_completeness auto
termination
  by (relation "measure (\<lambda>(i, workers, w). nat (workers - i))") auto

text \<open>
  \<open>Run\<close> with its deferred \<open>c.workqueue.ShutDown()\<close>, which runs on each return.
  The deferred \<open>HandleCrash\<close> acts on a panic only, and \<open>Run\<close> has none. Where the
  context is never cancelled, \<open>Run\<close> stays in \<open><-ctx.Done()\<close>.
\<close>

definition Run :: "env \<Rightarrow> int \<Rightarrow> world \<Rightarrow> error option outcome \<times> world" where
  "Run env workers w =
     (let w1 = logger_Info w ''Starting KubeLiteDB controller'';
          w2 = logger_Info w1 ''Waiting for informer caches to sync''
      in if \<not> WaitForCacheSync env
         then (Returns (Some (Errorf ''failed to wait for caches to sync'')),
               workqueue_ShutDown w2)
         else
           (let w3 = logger_Info w2 ''Starting workers'';
                w4 = launch_workers 0 workers w3;
                w5 = logger_Info w4 ''Started workers''
            in if ctx_Done env
               then (Returns None, workqueue_ShutDown (logger_Info w5 ''Shutting down workers''))
               else (Blocks, w5)))"

section \<open>Library functions and sample states\<close>

subsection \<open>Key functions\<close>

text \<open>
  The two key functions as the cache package of client-go defines them, to have an
  environment to run the controller in: a key is \<open>name\<close> or \<open>namespace/name\<close>.
  The error of \<open>SplitMetaNamespaceKey\<close> prints the key with \<open>%q\<close>: in double quotes,
  a double quote or a backslash in it escaped by a backslash (the escapes of bytes that do
  not print are left out here). The error of \<open>MetaNamespaceKeyFunc\<close> is the one of
  \<open>meta.Accessor\<close> for a value that is no object, behind the words
  \<open>object has no meta\<close>.
\<close>

fun split_on :: "char \<Rightarrow> string \<Rightarrow> string list" where
  "split_on c [] = [[]]"
| "split_on c (x # xs) =
     (if x = c then [] # split_on c xs
      else (case split_on c xs of
              [] \<Rightarrow> [[x]]
            | p # ps \<Rightarrow> (x # p) # ps))"

fun escape :: "string \<Rightarrow> string" where
  "escape [] = []"
| "escape (x # xs) =
     (if x = CHR 0x22 \<or> x = CHR 0x5C then CHR 0x5C # x # escape xs else x # escape xs)"

definition quote :: "string \<Rightarrow> string" where
  "quote s = [CHR 0x22] @ escape s @ [CHR 0x22]"

definition cache_SplitMetaNamespaceKey :: "string \<Rightarrow> error + (string \<times> string)" where
  "cache_SplitMetaNamespaceKey key =
     (case split_on (CHR ''/'') key of
        [name] \<Rightarrow> Inr ([], name)
      | [namespace, name] \<Rightarrow> Inr (namespace, name)
      | _ \<Rightarrow> Inl (Errorf (''unexpected key format: '' @ quote key)))"

definition cache_MetaNamespaceKeyFunc :: "payload \<Rightarrow> error + string" where
  "cache_MetaNamespaceKeyFunc obj =
     (case obj of
        ExplicitKey key \<Rightarrow> Inr key
      | Object x \<Rightarrow>
          (if Namespace (Meta x) \<noteq> [] then Inr (Namespace (Meta x) @ ''/'' @ Name (Meta x))
           else Inr (Name (Meta x)))
      | Tombstone k x \<Rightarrow>
          Inl (Errorf
            ''object has no meta: object does not implement the Object interfaces'')
      | Opaque v \<Rightarrow>
          Inl (Errorf
            ''object has no meta: object does not implement the Object interfaces''))"

subsection \<open>Sample states\<close>

definition sample_env :: env where
  "sample_env =
     \<lparr>SplitMetaNamespaceKey = cache_SplitMetaNamespaceKey,
      MetaNamespaceKeyFunc = cache_MetaNamespaceKeyFunc,
      WaitForCacheSync = True, ctx_Done = True, baseDelay = 5, maxDelay = 1000000\<rparr>"

definition foo :: "string \<Rightarrow> SQLiteInstance" where
  "foo p =
     \<lparr>Kind = ''SQLiteInstance'', APIVersion = ''kubelitedb/v1'',
      Meta = \<lparr>Name = ''foo'', Namespace = ''ns''\<rparr>,
      Spec = \<lparr>DbName = ''db'', Storage = ''1Gi'', Replicas = 1\<rparr>,
      Status = \<lparr>Phase = p\<rparr>\<rparr>"

text \<open>
  A state with the given store, the given answers of the API server and the given feed of
  the queue; \<open>ns/foo\<close> has been requeued twice.
\<close>

definition sample_world ::
  "(string \<times> string \<Rightarrow> SQLiteInstance option) \<Rightarrow> (nat \<Rightarrow> error option) \<Rightarrow>
   (item \<times> bool) list \<Rightarrow> world" where
  "sample_world store faults feed =
     \<lparr>cache = store, lister_fault = (\<lambda>_. None), locals = [], wq_feed = feed,
      wq_failures = (\<lambda>x. if x = StringItem ''ns/foo'' then 2 else 0),
      api_fault = faults, api_calls = 0, trace = []\<rparr>"

definition store_with :: "SQLiteInstance \<Rightarrow> string \<times> string \<Rightarrow> SQLiteInstance option" where
  "store_with x k = (if k = (Namespace (Meta x), Name (Meta x)) then Some x else None)"

text \<open>
  States for the examples. The object is gone; the key is malformed; the API server
  refuses every status update;
  the object is there and the API server accepts; the queue hands out a value that is no
  string; the object is in phase Unknown.
\<close>

definition absent_world :: world where
  "absent_world = sample_world (\<lambda>_. None) (\<lambda>_. None) [(StringItem ''ns/foo'', False)]"

definition malformed_world :: world where
  "malformed_world = sample_world (\<lambda>_. None) (\<lambda>_. None) [(StringItem ''a/b/c'', False)]"

definition failing_world :: world where
  "failing_world =
     sample_world (store_with (foo ''Pending'')) (\<lambda>_. Some (OtherError ''conflict''))
       [(StringItem ''ns/foo'', False)]"

definition found_world :: world where
  "found_world =
     sample_world (store_with (foo ''Pending'')) (\<lambda>_. None) [(StringItem ''ns/foo'', False)]"

definition non_string_world :: world where
  "non_string_world = sample_world (\<lambda>_. None) (\<lambda>_. None) [(OtherItem ''42'', False)]"

definition unknown_world :: world where
  "unknown_world =
     sample_world (store_with (foo ''Unknown'')) (\<lambda>_. None) [(StringItem ''ns/foo'', False)]"

text \<open>
  An environment whose cache never syncs, and a queue of three items, a shutdown and one
  more item, where the API server refuses the first status update.
\<close>

definition unsynced_env :: env where
  "unsynced_env = sample_env\<lparr>WaitForCacheSync := False\<rparr>"

definition busy_world :: world where
  "busy_world =
     sample_world (store_with (foo ''Pending''))
       (\<lambda>n. if n = 0 then Some (OtherError ''conflict'') else None)
       [(StringItem ''ns/foo'', False), (OtherItem ''42'', False), (StringItem ''ns/foo'', False),
        (StringItem [], True), (StringItem ''ns/bar'', False)]"

section \<open>The phases of the specification\<close>

text \<open>
  The state machine as the specification words it: \<open>Unknown \<rightarrow> Pending \<rightarrow> Running\<close>.
  A write that leaves the phase as it is is no transition.
\<close>

definition spec_phase_step :: "string \<Rightarrow> string \<Rightarrow> bool" where
  "spec_phase_step p q \<longleftrightarrow>
     (p = ''Unknown'' \<and> q = ''Pending'') \<or> (p = ''Pending'' \<and> q = ''Running'')"

definition spec_phase_write_ok :: "string \<Rightarrow> string \<Rightarrow> bool" where
  "spec_phase_write_ok p q \<longleftrightarrow> p = q \<or> spec_phase_step p q"

text \<open>
  The phase transitions a list of calls asks the API server for: for each status update of
  an object the store holds, the phase the store has and the phase the update carries.
\<close>

fun phase_transitions :: "world \<Rightarrow> call list \<Rightarrow> (string \<times> string) list" where
  "phase_transitions w [] = []"
| "phase_transitions w (StatusUpdate ns p obj # cs) =
     (case cache w (Namespace (Meta obj), Name (Meta obj)) of
        None \<Rightarrow> phase_transitions w cs
      | Some orig \<Rightarrow> (Phase (Status orig), Phase (Status obj)) # phase_transitions w cs)"
| "phase_transitions w (c # cs) = phase_transitions w cs"

section \<open>Reading a trace\<close>

text \<open>The calls a pass of \<open>syncHandler\<close> can make.\<close>

fun sync_call :: "call \<Rightarrow> bool" where
  "sync_call (ErrorSink _) = True"
| "sync_call (StatusUpdate _ _ _) = True"
| "sync_call (EventRecorded _ _ _ _) = True"
| "sync_call _ = False"

text \<open>The calls of the event recorder, and the writes of objects to the API server.\<close>

fun is_event :: "call \<Rightarrow> bool" where
  "is_event (EventRecorded _ _ _ _) = True"
| "is_event _ = False"

fun is_write :: "call \<Rightarrow> bool" where
  "is_write (StatusUpdate _ _ _) = True"
| "is_write (ObjectUpdate _ _ _) = True"
| "is_write _ = False"

text \<open>The items \<open>Done\<close> was called on, in the order of the calls.\<close>

fun done_items :: "call list \<Rightarrow> item list" where
  "done_items [] = []"
| "done_items (QDone x # cs) = x # done_items cs"
| "done_items (c # cs) = done_items cs"

text \<open>
  The state after \<open>updateSQLiteInstanceStatus\<close> has run on an object \<open>orig\<close>:
  one more local object, one more call of the API server.
\<close>

definition after_update :: "world \<Rightarrow> SQLiteInstance \<Rightarrow> world" where
  "after_update w orig =
     w\<lparr>locals := locals w @ [set_Phase ''Running'' orig],
       api_calls := Suc (api_calls w),
       trace := trace w @ [StatusUpdate (Namespace (Meta orig)) (LocalRef (length (locals w)))
                             (set_Phase ''Running'' orig)]\<rparr>"

text \<open>The object a notification is about, as the handlers see it.\<close>

fun subject :: "notification \<Rightarrow> payload" where
  "subject (Added obj) = obj"
| "subject (Updated old new) = new"
| "subject (Deleted obj) = obj"

text \<open>The call the bridge makes for an object.\<close>

definition bridge_call :: "env \<Rightarrow> payload \<Rightarrow> call" where
  "bridge_call env obj =
     (case MetaNamespaceKeyFunc env obj of
        Inl err \<Rightarrow> ErrorSink err
      | Inr key \<Rightarrow> QAdd (StringItem key))"

section \<open>Lemmas on the reconcile pass\<close>

lemma update_found:
  "deref w r = Some orig \<Longrightarrow>
   updateSQLiteInstanceStatus w r = (Returns (api_fault w (api_calls w)), after_update w orig)"
  by (cases r)
     (simp_all add: updateSQLiteInstanceStatus_def DeepCopy_def UpdateStatus_def
        record_call_def after_update_def nth_append split: if_splits)

lemma lister_Get_found:
  "lister_Get w namespace name = Inr r \<Longrightarrow>
   r = CacheRef namespace name \<and> (\<exists>orig. cache w (namespace, name) = Some orig)"
  by (auto simp: lister_Get_def split: option.splits)

lemma lister_Get_feed [simp]: "lister_Get (w\<lparr>wq_feed := f\<rparr>) = lister_Get w"
  by (rule ext)+ (simp add: lister_Get_def split: option.splits)

lemma syncHandler_malformed:
  "SplitMetaNamespaceKey env key = Inl e \<Longrightarrow>
   syncHandler env w key =
     (Returns None, HandleError w (Errorf (''invalid resource key: '' @ key)))"
  by (simp add: syncHandler_def)

lemma syncHandler_not_found:
  "SplitMetaNamespaceKey env key = Inr (namespace, name) \<Longrightarrow>
   lister_Get w namespace name = Inl err \<Longrightarrow> IsNotFound err \<Longrightarrow>
   syncHandler env w key =
     (Returns None,
      HandleError w (Errorf (''sqliteinstance '' @ [CHR 0x27] @ key @ [CHR 0x27]
                             @ '' in work queue no longer exists'')))"
  by (simp add: syncHandler_def)

lemma syncHandler_lookup_error:
  "SplitMetaNamespaceKey env key = Inr (namespace, name) \<Longrightarrow>
   lister_Get w namespace name = Inl err \<Longrightarrow> \<not> IsNotFound err \<Longrightarrow>
   syncHandler env w key = (Returns (Some err), w)"
  by (simp add: syncHandler_def)

lemma syncHandler_found:
  assumes "SplitMetaNamespaceKey env key = Inr (namespace, name)"
    and "lister_Get w namespace name = Inr r"
    and "cache w (namespace, name) = Some orig"
  shows "syncHandler env w key =
     (case api_fault w (api_calls w) of
        Some err \<Rightarrow> (Returns (Some err), after_update w orig)
      | None \<Rightarrow>
          (Returns None,
           recorder_Event (after_update w orig) r EventTypeNormal SuccessSynced
             MessageResourceSynced))"
proof -
  from assms(2) have r: "r = CacheRef namespace name" by (simp add: lister_Get_found)
  with assms(3) have "deref w r = Some orig" by simp
  then have "updateSQLiteInstanceStatus w r =
      (Returns (api_fault w (api_calls w)), after_update w orig)"
    by (rule update_found)
  with assms(1,2) show ?thesis
    by (simp add: syncHandler_def split: option.splits)
qed

lemma syncHandler_cases [case_names malformed not_found lookup_error update_error synced]:
  obtains
    (malformed) e where "SplitMetaNamespaceKey env key = Inl e"
      and "syncHandler env w key =
             (Returns None, HandleError w (Errorf (''invalid resource key: '' @ key)))"
  | (not_found) namespace name err where
      "SplitMetaNamespaceKey env key = Inr (namespace, name)"
      and "lister_Get w namespace name = Inl err" and "IsNotFound err"
      and "syncHandler env w key =
             (Returns None,
              HandleError w (Errorf (''sqliteinstance '' @ [CHR 0x27] @ key @ [CHR 0x27]
                                     @ '' in work queue no longer exists'')))"
  | (lookup_error) namespace name err where
      "SplitMetaNamespaceKey env key = Inr (namespace, name)"
      and "lister_Get w namespace name = Inl err" and "\<not> IsNotFound err"
      and "syncHandler env w key = (Returns (Some err), w)"
  | (update_error) namespace name orig err where
      "SplitMetaNamespaceKey env key = Inr (namespace, name)"
      and "lister_Get w namespace name = Inr (CacheRef namespace name)"
      and "cache w (namespace, name) = Some orig"
      and "api_fault w (api_calls w) = Some err"
      and "syncHandler env w key = (Returns (Some err), after_update w orig)"
  | (synced) namespace name orig where
      "SplitMetaNamespaceKey env key = Inr (namespace, name)"
      and "lister_Get w namespace name = Inr (CacheRef namespace name)"
      and "cache w (namespace, name) = Some orig"
      and "api_fault w (api_calls w) = None"
      and "syncHandler env w key =
             (Returns None,
              recorder_Event (after_update w orig) (CacheRef namespace name) EventTypeNormal
                SuccessSynced MessageResourceSynced)"
proof (cases "SplitMetaNamespaceKey env key")
  case (Inl e)
  then show ?thesis using malformed syncHandler_malformed by blast
next
  case (Inr p)
  obtain namespace name where p: "p = (namespace, name)" by (cases p)
  note split = Inr [unfolded p]
  show ?thesis
  proof (cases "lister_Get w namespace name")
    case (Inl err)
    show ?thesis
    proof (cases "IsNotFound err")
      case True
      then show ?thesis using not_found split Inl syncHandler_not_found by blast
    next
      case False
      then show ?thesis using lookup_error split Inl syncHandler_lookup_error by blast
    qed
  next
    case (Inr r)
    then obtain orig where r: "r = CacheRef namespace name"
      and orig: "cache w (namespace, name) = Some orig"
      using lister_Get_found by blast
    note found = syncHandler_found [OF split Inr orig]
    show ?thesis
    proof (cases "api_fault w (api_calls w)")
      case None
      then show ?thesis using synced [OF split Inr [unfolded r] orig] found r by simp
    next
      case (Some err)
      then show ?thesis using update_error [OF split Inr [unfolded r] orig] found by simp
    qed
  qed
qed


lemma calls_since_append [simp]: "trace w' = trace w @ new \<Longrightarrow> calls_since w w' = new"
  by (simp add: calls_since_def)

lemma calls_since_feed [simp]: "calls_since (w\<lparr>wq_feed := f\<rparr>) w' = calls_since w w'"
  by (simp add: calls_since_def)

lemmas effect_defs =
  record_call_def HandleError_def logger_Info_def recorder_Event_def workqueue_Add_def
  workqueue_Done_def workqueue_Forget_def workqueue_AddRateLimited_def workqueue_ShutDown_def
  go_runWorker_def after_update_def

lemma process_shutdown:
  "wq_feed w = (obj, True) # rest \<Longrightarrow>
   processNextWorkItem env w = (Returns False, w\<lparr>wq_feed := rest\<rparr>)"
  by (simp add: processNextWorkItem_def workqueue_Get_def)

lemma process_blocked:
  "wq_feed w = [] \<Longrightarrow> processNextWorkItem env w = (Blocks, w)"
  by (simp add: processNextWorkItem_def workqueue_Get_def)

lemma process_other:
  "wq_feed w = (OtherItem v, False) # rest \<Longrightarrow>
   processNextWorkItem env w =
     (Returns True,
      workqueue_Done
        (HandleError (workqueue_Forget (w\<lparr>wq_feed := rest\<rparr>) (OtherItem v))
           (Errorf (''expected string in workqueue but got '' @ v)))
        (OtherItem v))"
  by (simp add: processNextWorkItem_def workqueue_Get_def process_item_def process_body_def)

lemma process_string_ok:
  "wq_feed w = (StringItem key, False) # rest \<Longrightarrow>
   syncHandler env (w\<lparr>wq_feed := rest\<rparr>) key = (Returns None, w1) \<Longrightarrow>
   processNextWorkItem env w =
     (Returns True,
      workqueue_Done
        (logger_Info (workqueue_Forget w1 (StringItem key)) ''Successfully synced'')
        (StringItem key))"
  by (simp add: processNextWorkItem_def workqueue_Get_def process_item_def process_body_def)

lemma process_string_error:
  "wq_feed w = (StringItem key, False) # rest \<Longrightarrow>
   syncHandler env (w\<lparr>wq_feed := rest\<rparr>) key = (Returns (Some err), w1) \<Longrightarrow>
   processNextWorkItem env w =
     (Returns True,
      HandleError
        (workqueue_Done (workqueue_AddRateLimited w1 (StringItem key)) (StringItem key))
        (Errorf (''error syncing '' @ [CHR 0x27] @ key @ [CHR 0x27] @ '': '' @ Error err
                 @ '', requeuing'')))"
  by (simp add: processNextWorkItem_def workqueue_Get_def process_item_def process_body_def)

lemma syncHandler_frame:
  assumes "syncHandler env w key = (r, w1)"
  shows "(\<exists>e. r = Returns e) \<and> cache w1 = cache w \<and> lister_fault w1 = lister_fault w
     \<and> wq_feed w1 = wq_feed w \<and> wq_failures w1 = wq_failures w \<and> api_fault w1 = api_fault w
     \<and> take (length (locals w)) (locals w1) = locals w
     \<and> (\<exists>new. trace w1 = trace w @ new \<and> list_all sync_call new)"
  using assms
  by (cases rule: syncHandler_cases [of env key w]) (auto simp: effect_defs)

lemma process_feed:
  assumes "processNextWorkItem env w = (Returns b, w')"
  shows "\<exists>x. wq_feed w = (x, \<not> b) # wq_feed w'"
proof (cases "wq_feed w")
  case Nil
  with assms show ?thesis by (simp add: process_blocked)
next
  case (Cons p rest)
  obtain obj shutdown where p: "p = (obj, shutdown)" by (cases p)
  note feed = Cons [unfolded p]
  show ?thesis
  proof (cases shutdown)
    case True
    with assms feed show ?thesis by (auto simp: process_shutdown)
  next
    case False
    with feed have feed: "wq_feed w = (obj, False) # rest" by simp
    show ?thesis
    proof (cases obj)
      case (OtherItem v)
      with assms feed show ?thesis by (auto simp: process_other effect_defs)
    next
      case (StringItem key)
      obtain r w1 where sync: "syncHandler env (w\<lparr>wq_feed := rest\<rparr>) key = (r, w1)"
        by (cases "syncHandler env (w\<lparr>wq_feed := rest\<rparr>) key")
      from syncHandler_frame [OF sync] obtain e where r: "r = Returns e"
        and f: "wq_feed w1 = rest" by auto
      show ?thesis
      proof (cases e)
        case None
        with assms feed sync r f StringItem show ?thesis
          by (auto simp: process_string_ok effect_defs)
      next
        case (Some err)
        with assms feed sync r f StringItem show ?thesis
          by (auto simp: process_string_error effect_defs)
      qed
    qed
  qed
qed

text \<open>Each round of \<open>runWorker\<close> shortens the feed.\<close>

termination runWorker
  apply (relation "measure (\<lambda>(env, w). length (wq_feed w))")
   apply simp
  apply (drule sym)
  apply simp
  apply (drule process_feed)
  apply auto
  done

section \<open>More lemmas on one round of a worker\<close>

lemma sync_call_count_Done: "list_all sync_call new \<Longrightarrow> count_list new (QDone x) = 0"
  by (induction new) auto

lemma sync_call_not_Done: "list_all sync_call new \<Longrightarrow> QDone x \<notin> set new"
  by (induction new) auto

lemma process_calls:
  assumes feed: "wq_feed w = (obj, False) # rest"
    and run: "processNextWorkItem env w = (r, w')"
  shows "r = Returns True \<and>
    (\<exists>new tail. calls_since w w' = new @ tail \<and> list_all sync_call new \<and>
       (tail = [QForget obj, LogInfo ''Successfully synced'', QDone obj]
        \<or> (\<exists>e. tail = [QAddRateLimited obj, QDone obj, ErrorSink e])
        \<or> (\<exists>e. tail = [QForget obj, ErrorSink e, QDone obj])))"
proof (cases obj)
  case (OtherItem v)
  with feed run have "r = Returns True"
    and "calls_since w w' = [] @ [QForget obj, ErrorSink (Errorf (''expected string in workqueue but got '' @ v)), QDone obj]"
    by (auto simp: process_other effect_defs)
  moreover have "list_all sync_call []" by simp
  ultimately show ?thesis by blast
next
  case (StringItem key)
  let ?w0 = "w\<lparr>wq_feed := rest\<rparr>"
  obtain s w1 where sync: "syncHandler env ?w0 key = (s, w1)"
    by (cases "syncHandler env ?w0 key")
  from syncHandler_frame [OF sync] obtain e new where s: "s = Returns e"
    and new: "trace w1 = trace w @ new" "list_all sync_call new" by auto
  show ?thesis
  proof (cases e)
    case None
    with feed run sync s new StringItem
    have "r = Returns True"
      and "calls_since w w' = new @ [QForget obj, LogInfo ''Successfully synced'', QDone obj]"
      by (auto simp: process_string_ok effect_defs)
    with new(2) show ?thesis by blast
  next
    case (Some err)
    with feed run sync s new StringItem
    have "r = Returns True"
      and "\<exists>e. calls_since w w' = new @ [QAddRateLimited obj, QDone obj, ErrorSink e]"
      by (auto simp: process_string_error effect_defs)
    with new(2) show ?thesis by blast
  qed
qed

text \<open>
  One round of a worker ends in one of seven ways; each fixes the result and the state.
\<close>

lemma process_round_cases
  [consumes 1, case_names blocked shutdown non_string dropped lookup_failed update_failed succeeded]:
  assumes run: "processNextWorkItem env w = (r, w')"
  obtains
    (blocked) "wq_feed w = []" and "r = Blocks" and "w' = w"
  | (shutdown) obj rest where "wq_feed w = (obj, True) # rest"
      and "r = Returns False" and "w' = w\<lparr>wq_feed := rest\<rparr>"
  | (non_string) v rest where "wq_feed w = (OtherItem v, False) # rest" and "r = Returns True"
      and "w' = workqueue_Done
                  (HandleError (workqueue_Forget (w\<lparr>wq_feed := rest\<rparr>) (OtherItem v))
                     (Errorf (''expected string in workqueue but got '' @ v)))
                  (OtherItem v)"
  | (dropped) key rest e where "wq_feed w = (StringItem key, False) # rest"
      and "(\<exists>e. SplitMetaNamespaceKey env key = Inl e) \<or>
           (\<exists>namespace name err. SplitMetaNamespaceKey env key = Inr (namespace, name) \<and>
              lister_Get w namespace name = Inl err \<and> IsNotFound err)"
      and "r = Returns True"
      and "w' = workqueue_Done
                  (logger_Info
                     (workqueue_Forget (HandleError (w\<lparr>wq_feed := rest\<rparr>) e) (StringItem key))
                     ''Successfully synced'')
                  (StringItem key)"
  | (lookup_failed) key rest namespace name err where
      "wq_feed w = (StringItem key, False) # rest"
      and "SplitMetaNamespaceKey env key = Inr (namespace, name)"
      and "lister_Get w namespace name = Inl err" and "\<not> IsNotFound err"
      and "r = Returns True"
      and "w' = HandleError
                  (workqueue_Done
                     (workqueue_AddRateLimited (w\<lparr>wq_feed := rest\<rparr>) (StringItem key))
                     (StringItem key))
                  (Errorf (''error syncing '' @ [CHR 0x27] @ key @ [CHR 0x27] @ '': ''
                           @ Error err @ '', requeuing''))"
  | (update_failed) key rest namespace name orig err where
      "wq_feed w = (StringItem key, False) # rest"
      and "SplitMetaNamespaceKey env key = Inr (namespace, name)"
      and "lister_Get w namespace name = Inr (CacheRef namespace name)"
      and "cache w (namespace, name) = Some orig"
      and "api_fault w (api_calls w) = Some err"
      and "r = Returns True"
      and "w' = HandleError
                  (workqueue_Done
                     (workqueue_AddRateLimited (after_update (w\<lparr>wq_feed := rest\<rparr>) orig)
                        (StringItem key))
                     (StringItem key))
                  (Errorf (''error syncing '' @ [CHR 0x27] @ key @ [CHR 0x27] @ '': ''
                           @ Error err @ '', requeuing''))"
  | (succeeded) key rest namespace name orig where
      "wq_feed w = (StringItem key, False) # rest"
      and "SplitMetaNamespaceKey env key = Inr (namespace, name)"
      and "lister_Get w namespace name = Inr (CacheRef namespace name)"
      and "cache w (namespace, name) = Some orig"
      and "api_fault w (api_calls w) = None"
      and "r = Returns True"
      and "w' = workqueue_Done
                  (logger_Info
                     (workqueue_Forget
                        (recorder_Event (after_update (w\<lparr>wq_feed := rest\<rparr>) orig)
                           (CacheRef namespace name) EventTypeNormal SuccessSynced
                           MessageResourceSynced)
                        (StringItem key))
                     ''Successfully synced'')
                  (StringItem key)"
proof (cases "wq_feed w")
  case Nil
  with run have "r = Blocks" and "w' = w" by (simp_all add: process_blocked)
  with Nil show ?thesis by (rule blocked)
next
  case (Cons p rest)
  obtain obj stop where p: "p = (obj, stop)" by (cases p)
  show ?thesis
  proof (cases stop)
    case True
    with Cons p have feed: "wq_feed w = (obj, True) # rest" by simp
    with run have "r = Returns False" and "w' = w\<lparr>wq_feed := rest\<rparr>"
      by (simp_all add: process_shutdown)
    with feed show ?thesis by (rule shutdown)
  next
    case False
    with Cons p have feed: "wq_feed w = (obj, False) # rest" by simp
    show ?thesis
    proof (cases obj)
      case (OtherItem v)
      with feed have feed': "wq_feed w = (OtherItem v, False) # rest" by simp
      from process_other [OF feed', of env] run show ?thesis
        by (intro non_string [OF feed']) simp_all
    next
      case (StringItem key)
      with feed have feed': "wq_feed w = (StringItem key, False) # rest" by simp
      let ?w0 = "w\<lparr>wq_feed := rest\<rparr>"
      show ?thesis
      proof (cases rule: syncHandler_cases [of env key ?w0])
        case (malformed e)
        from process_string_ok [OF feed' malformed(2)] run malformed(1) show ?thesis
          by (intro dropped [OF feed']) auto
      next
        case (not_found namespace name err)
        from process_string_ok [OF feed' not_found(4)] run not_found(1-3) show ?thesis
          by (intro dropped [OF feed']) auto
      next
        case (lookup_error namespace name err)
        from process_string_error [OF feed' lookup_error(4)] run lookup_error(1-3)
        show ?thesis
          by (intro lookup_failed [OF feed', of namespace name err]) auto
      next
        case (update_error namespace name orig err)
        from process_string_error [OF feed' update_error(5)] run update_error(1-4)
        show ?thesis
          by (intro update_failed [OF feed', of namespace name orig err]) auto
      next
        case (synced namespace name orig)
        from process_string_ok [OF feed' synced(5)] run synced(1-4)
        show ?thesis
          by (intro succeeded [OF feed', of namespace name orig]) auto
      qed
    qed
  qed
qed

section \<open>Lemmas on \<open>Run\<close> and \<open>runWorker\<close>\<close>

text \<open>The two loops are unfolded by hand, one round at a time.\<close>

declare runWorker.simps [simp del]

declare launch_workers.simps [simp del]

lemma launch_workers_trace:
  "launch_workers i workers w =
     w\<lparr>trace := trace w @ replicate (nat (workers - i)) WorkerStarted\<rparr>"
proof (induction i workers w rule: launch_workers.induct)
  case (1 i workers w)
  show ?case
  proof (cases "i < workers")
    case True
    then have "nat (workers - i) = Suc (nat (workers - (i + 1)))" by arith
    then have n: "replicate (nat (workers - i)) WorkerStarted
        = WorkerStarted # replicate (nat (workers - (i + 1))) WorkerStarted"
      by (simp only: replicate_Suc)
    from True have "launch_workers i workers w = launch_workers (i + 1) workers (go_runWorker w)"
      by (subst launch_workers.simps) simp
    also from True have "\<dots> = (go_runWorker w)\<lparr>trace := trace (go_runWorker w)
        @ replicate (nat (workers - (i + 1))) WorkerStarted\<rparr>"
      by (rule "1.IH")
    also have "\<dots> = w\<lparr>trace := trace w @ replicate (nat (workers - i)) WorkerStarted\<rparr>"
      unfolding n by (simp add: go_runWorker_def record_call_def)
    finally show ?thesis .
  next
    case False
    then show ?thesis by (subst launch_workers.simps) simp
  qed
qed

lemma count_replicate_WorkerStarted:
  "count_list (replicate n WorkerStarted) WorkerStarted = n"
  by (induction n) simp_all

lemma Run_unsynced:
  "\<not> WaitForCacheSync env \<Longrightarrow>
   Run env workers w =
     (Returns (Some (Errorf ''failed to wait for caches to sync'')),
      w\<lparr>trace := trace w @
          [LogInfo ''Starting KubeLiteDB controller'',
           LogInfo ''Waiting for informer caches to sync'', QShutDown]\<rparr>)"
  by (simp add: Run_def Let_def effect_defs)

lemma Run_synced:
  "WaitForCacheSync env \<Longrightarrow>
   Run env workers w =
     (if ctx_Done env then Returns None else Blocks,
      w\<lparr>trace := trace w @
          [LogInfo ''Starting KubeLiteDB controller'',
           LogInfo ''Waiting for informer caches to sync'', LogInfo ''Starting workers'']
          @ replicate (nat workers) WorkerStarted @ [LogInfo ''Started workers'']
          @ (if ctx_Done env then [LogInfo ''Shutting down workers'', QShutDown] else [])\<rparr>)"
  by (simp add: Run_def Let_def launch_workers_trace effect_defs)

lemma done_items_append: "done_items (xs @ ys) = done_items xs @ done_items ys"
  by (induction xs rule: done_items.induct) simp_all

lemma process_done:
  assumes feed: "wq_feed w = (obj, False) # rest"
    and run: "processNextWorkItem env w = (r, w1)"
  shows "r = Returns True \<and> wq_feed w1 = rest \<and>
     (\<exists>new. trace w1 = trace w @ new \<and> done_items new = [obj])"
  using run feed
  by (cases rule: process_round_cases) (auto simp: effect_defs)

lemma runWorker_blocked: "wq_feed w = [] \<Longrightarrow> runWorker env w = (Blocks, w)"
  by (subst runWorker.simps) (simp add: process_blocked)

lemma runWorker_shutdown:
  "wq_feed w = (obj, True) # rest \<Longrightarrow> runWorker env w = (Returns (), w\<lparr>wq_feed := rest\<rparr>)"
  by (subst runWorker.simps) (simp add: process_shutdown)

lemma runWorker_step:
  assumes feed: "wq_feed w = (obj, False) # rest"
    and run: "processNextWorkItem env w = (r, w1)"
  shows "runWorker env w = runWorker env w1"
proof -
  from process_done [OF feed run] have "r = Returns True" by simp
  with run show ?thesis by (subst runWorker.simps) simp
qed

lemma runWorker_shape:
  assumes "wq_feed w = feed" and "runWorker env w = (r, w')"
  shows "r = (if list_ex snd feed then Returns () else Blocks) \<and>
     wq_feed w' = tl (dropWhile (\<lambda>p. \<not> snd p) feed) \<and>
     (\<exists>new. trace w' = trace w @ new \<and>
        done_items new = map fst (takeWhile (\<lambda>p. \<not> snd p) feed))"
  using assms
proof (induction feed arbitrary: w)
  case Nil
  then show ?case by (simp add: runWorker_blocked)
next
  case (Cons p rest)
  obtain obj stop where p: "p = (obj, stop)" by (cases p)
  show ?case
  proof (cases stop)
    case True
    with Cons.prems p have "wq_feed w = (obj, True) # rest" by simp
    from runWorker_shutdown [OF this] Cons.prems(2) p True show ?thesis by auto
  next
    case False
    with Cons.prems p have feed: "wq_feed w = (obj, False) # rest" by simp
    obtain r1 w1 where run1: "processNextWorkItem env w = (r1, w1)"
      by (cases "processNextWorkItem env w")
    from process_done [OF feed run1] obtain new1 where
      rest: "wq_feed w1 = rest" and new1: "trace w1 = trace w @ new1" "done_items new1 = [obj]"
      by blast
    from runWorker_step [OF feed run1] Cons.prems(2) have "runWorker env w1 = (r, w')" by simp
    from Cons.IH [OF rest this] obtain new where
      r: "r = (if list_ex snd rest then Returns () else Blocks)"
      and f: "wq_feed w' = tl (dropWhile (\<lambda>p. \<not> snd p) rest)"
      and new: "trace w' = trace w1 @ new"
        "done_items new = map fst (takeWhile (\<lambda>p. \<not> snd p) rest)"
      by blast
    from new1 new have "trace w' = trace w @ (new1 @ new)"
      and "done_items (new1 @ new) = obj # map fst (takeWhile (\<lambda>p. \<not> snd p) rest)"
      by (simp_all add: done_items_append)
    with r f p False show ?thesis by auto
  qed
qed

text \<open>The definitions to unfold when a sample state is run.\<close>

lemmas sample_defs =
  sample_world_def sample_env_def cache_SplitMetaNamespaceKey_def
  cache_MetaNamespaceKeyFunc_def quote_def store_with_def foo_def

lemmas run_defs =
  processNextWorkItem_def workqueue_Get_def process_item_def process_body_def syncHandler_def
  lister_Get_def updateSQLiteInstanceStatus_def DeepCopy_def UpdateStatus_def set_Phase_def
  Errorf_def EventTypeNormal_def SuccessSynced_def MessageResourceSynced_def

section \<open>The claims\<close>

text \<open>
  In the theorems below \<open>w\<close> is the state in which \<open>processNextWorkItem\<close> is
  called, the head of \<open>wq_feed w\<close> is what \<open>Get\<close> returns to it, and
  \<open>calls_since w w'\<close> lists the calls it made, in order.
\<close>

subsection \<open>C1\<close>

text \<open>
  Claim C1. A dequeued key that cannot be split into namespace and name, or whose object
  the lister reports as not found, makes \<open>syncHandler\<close> return nil; the round makes
  the four calls listed and no other (so no status update, no \<open>AddRateLimited\<close>, no
  \<open>Add\<close>): the error report, \<open>Forget\<close> of the key, the log line and
  \<open>Done\<close>. The key's requeue count is zero afterwards.
\<close>

theorem C1_malformed_or_absent_key_is_forgotten:
  assumes feed: "wq_feed w = (StringItem key, False) # rest"
    and gone: "(\<exists>e. SplitMetaNamespaceKey env key = Inl e) \<or>
       (\<exists>namespace name err. SplitMetaNamespaceKey env key = Inr (namespace, name) \<and>
          lister_Get w namespace name = Inl err \<and> IsNotFound err)"
    and run: "processNextWorkItem env w = (r, w')"
  shows "fst (syncHandler env (w\<lparr>wq_feed := rest\<rparr>) key) = Returns None \<and>
     r = Returns True \<and>
     (\<exists>e. calls_since w w' =
        [ErrorSink e, QForget (StringItem key), LogInfo ''Successfully synced'',
         QDone (StringItem key)]) \<and>
     api_calls w' = api_calls w \<and>
     wq_failures w' (StringItem key) = 0 \<and>
     next_delay env w' (StringItem key) = backoff_delay env 0"
proof -
  let ?w0 = "w\<lparr>wq_feed := rest\<rparr>"
  from gone obtain e where sync: "syncHandler env ?w0 key = (Returns None, HandleError ?w0 e)"
    using syncHandler_malformed [of env key _ ?w0]
      syncHandler_not_found [of env key _ _ ?w0] by fastforce
  from process_string_ok [OF feed sync] run
  have "r = Returns True"
    and "w' = workqueue_Done (logger_Info (workqueue_Forget (HandleError ?w0 e) (StringItem key))
                ''Successfully synced'') (StringItem key)"
    by simp_all
  with sync show ?thesis by (simp add: effect_defs next_delay_def)
qed

theorem C1_dropped_keys_witness:
  "wq_feed absent_world = (StringItem ''ns/foo'', False) # [] \<and>
   SplitMetaNamespaceKey sample_env ''ns/foo'' = Inr (''ns'', ''foo'') \<and>
   lister_Get absent_world ''ns'' ''foo'' = Inl (NotFoundError ''sqliteinstance foo not found'') \<and>
   IsNotFound (NotFoundError ''sqliteinstance foo not found'') \<and>
   fst (syncHandler sample_env (absent_world\<lparr>wq_feed := []\<rparr>) ''ns/foo'') = Returns None \<and>
   fst (processNextWorkItem sample_env absent_world) = Returns True \<and>
   calls_since absent_world (snd (processNextWorkItem sample_env absent_world)) =
     [ErrorSink (OtherError ''sqliteinstance 'ns/foo' in work queue no longer exists''),
      QForget (StringItem ''ns/foo''), LogInfo ''Successfully synced'',
      QDone (StringItem ''ns/foo'')] \<and>
   wq_failures absent_world (StringItem ''ns/foo'') = 2 \<and>
   wq_failures (snd (processNextWorkItem sample_env absent_world)) (StringItem ''ns/foo'') = 0 \<and>
   wq_feed malformed_world = (StringItem ''a/b/c'', False) # [] \<and>
   SplitMetaNamespaceKey sample_env ''a/b/c''
     = Inl (OtherError (''unexpected key format: '' @ [CHR 0x22] @ ''a/b/c'' @ [CHR 0x22])) \<and>
   fst (syncHandler sample_env (malformed_world\<lparr>wq_feed := []\<rparr>) ''a/b/c'') = Returns None \<and>
   fst (processNextWorkItem sample_env malformed_world) = Returns True \<and>
   calls_since malformed_world (snd (processNextWorkItem sample_env malformed_world)) =
     [ErrorSink (OtherError ''invalid resource key: a/b/c''),
      QForget (StringItem ''a/b/c''), LogInfo ''Successfully synced'',
      QDone (StringItem ''a/b/c'')]"
proof -
  let ?p = "processNextWorkItem sample_env absent_world"
  have feed: "wq_feed absent_world = (StringItem ''ns/foo'', False) # []"
    by (simp add: absent_world_def sample_defs)
  have split: "SplitMetaNamespaceKey sample_env ''ns/foo'' = Inr (''ns'', ''foo'')"
    by (simp add: sample_defs)
  have look: "lister_Get absent_world ''ns'' ''foo'' =
      Inl (NotFoundError ''sqliteinstance foo not found'')"
    by (simp add: absent_world_def sample_defs lister_Get_def)
  have gone: "(\<exists>e. SplitMetaNamespaceKey sample_env ''ns/foo'' = Inl e) \<or>
       (\<exists>namespace name err.
          SplitMetaNamespaceKey sample_env ''ns/foo'' = Inr (namespace, name) \<and>
          lister_Get absent_world namespace name = Inl err \<and> IsNotFound err)"
    using split look by simp
  have run: "?p = (fst ?p, snd ?p)" by simp
  have calls: "calls_since absent_world (snd ?p) =
     [ErrorSink (OtherError ''sqliteinstance 'ns/foo' in work queue no longer exists''),
      QForget (StringItem ''ns/foo''), LogInfo ''Successfully synced'',
      QDone (StringItem ''ns/foo'')]"
    by (simp add: absent_world_def sample_defs run_defs effect_defs calls_since_def)
  have before: "wq_failures absent_world (StringItem ''ns/foo'') = 2"
    by (simp add: absent_world_def sample_defs)
  from C1_malformed_or_absent_key_is_forgotten [OF feed gone run] feed split look calls before
  have absent: "wq_feed absent_world = (StringItem ''ns/foo'', False) # [] \<and>
   SplitMetaNamespaceKey sample_env ''ns/foo'' = Inr (''ns'', ''foo'') \<and>
   lister_Get absent_world ''ns'' ''foo'' = Inl (NotFoundError ''sqliteinstance foo not found'') \<and>
   IsNotFound (NotFoundError ''sqliteinstance foo not found'') \<and>
   fst (syncHandler sample_env (absent_world\<lparr>wq_feed := []\<rparr>) ''ns/foo'') = Returns None \<and>
   fst ?p = Returns True \<and>
   calls_since absent_world (snd ?p) =
     [ErrorSink (OtherError ''sqliteinstance 'ns/foo' in work queue no longer exists''),
      QForget (StringItem ''ns/foo''), LogInfo ''Successfully synced'',
      QDone (StringItem ''ns/foo'')] \<and>
   wq_failures absent_world (StringItem ''ns/foo'') = 2 \<and>
   wq_failures (snd ?p) (StringItem ''ns/foo'') = 0"
    by simp
  let ?q = "processNextWorkItem sample_env malformed_world"
  have feed': "wq_feed malformed_world = (StringItem ''a/b/c'', False) # []"
    by (simp add: malformed_world_def sample_defs)
  have split': "SplitMetaNamespaceKey sample_env ''a/b/c''
      = Inl (OtherError (''unexpected key format: '' @ [CHR 0x22] @ ''a/b/c'' @ [CHR 0x22]))"
    by (simp add: sample_defs Errorf_def)
  then have gone': "(\<exists>e. SplitMetaNamespaceKey sample_env ''a/b/c'' = Inl e) \<or>
       (\<exists>namespace name err.
          SplitMetaNamespaceKey sample_env ''a/b/c'' = Inr (namespace, name) \<and>
          lister_Get malformed_world namespace name = Inl err \<and> IsNotFound err)"
    by simp
  have run': "?q = (fst ?q, snd ?q)" by simp
  have calls': "calls_since malformed_world (snd ?q) =
     [ErrorSink (OtherError ''invalid resource key: a/b/c''),
      QForget (StringItem ''a/b/c''), LogInfo ''Successfully synced'',
      QDone (StringItem ''a/b/c'')]"
    by (simp add: malformed_world_def sample_defs run_defs effect_defs calls_since_def)
  from C1_malformed_or_absent_key_is_forgotten [OF feed' gone' run'] feed' split' calls'
  have malformed: "wq_feed malformed_world = (StringItem ''a/b/c'', False) # [] \<and>
   SplitMetaNamespaceKey sample_env ''a/b/c''
     = Inl (OtherError (''unexpected key format: '' @ [CHR 0x22] @ ''a/b/c'' @ [CHR 0x22])) \<and>
   fst (syncHandler sample_env (malformed_world\<lparr>wq_feed := []\<rparr>) ''a/b/c'') = Returns None \<and>
   fst ?q = Returns True \<and>
   calls_since malformed_world (snd ?q) =
     [ErrorSink (OtherError ''invalid resource key: a/b/c''),
      QForget (StringItem ''a/b/c''), LogInfo ''Successfully synced'',
      QDone (StringItem ''a/b/c'')]"
    by simp
  from absent malformed show ?thesis by blast
qed

subsection \<open>C2\<close>

text \<open>
  Claim C2. When \<open>syncHandler\<close> returns an error for the dequeued key (a lookup error
  other than not-found, or the error of the status update), the round ends with
  \<open>AddRateLimited\<close> of the key, \<open>Done\<close>, and the error handed to the error
  sink; \<open>Forget\<close> is not called on the key, and its requeue count has grown by one.
\<close>

theorem C2_sync_error_is_requeued:
  assumes feed: "wq_feed w = (StringItem key, False) # rest"
    and sync: "syncHandler env (w\<lparr>wq_feed := rest\<rparr>) key = (Returns (Some err), w1)"
    and run: "processNextWorkItem env w = (r, w')"
  shows "r = Returns True \<and>
     calls_since w1 w' =
       [QAddRateLimited (StringItem key), QDone (StringItem key),
        ErrorSink (Errorf (''error syncing '' @ [CHR 0x27] @ key @ [CHR 0x27] @ '': ''
                           @ Error err @ '', requeuing''))] \<and>
     QForget (StringItem key) \<notin> set (calls_since w w') \<and>
     wq_failures w' (StringItem key) = Suc (wq_failures w (StringItem key)) \<and>
     next_delay env w' (StringItem key) = backoff_delay env (Suc (wq_failures w (StringItem key))) \<and>
     (\<exists>namespace name. SplitMetaNamespaceKey env key = Inr (namespace, name) \<and>
        (lister_Get w namespace name = Inl err \<and> \<not> IsNotFound err
         \<or> (\<exists>obj. lister_Get w namespace name = Inr obj) \<and>
            api_fault w (api_calls w) = Some err))"
proof -
  let ?w0 = "w\<lparr>wq_feed := rest\<rparr>"
  let ?k = "StringItem key"
  from process_string_error [OF feed sync] run
  have r: "r = Returns True"
    and w': "w' = HandleError (workqueue_Done (workqueue_AddRateLimited w1 ?k) ?k)
        (Errorf (''error syncing '' @ [CHR 0x27] @ key @ [CHR 0x27] @ '': ''
                 @ Error err @ '', requeuing''))"
    by simp_all
  from syncHandler_frame [OF sync] obtain new where
    fr: "wq_failures w1 = wq_failures w" and new: "trace w1 = trace w @ new" "list_all sync_call new"
    by auto
  have forget: "QForget ?k \<notin> set new" using new(2) by (induction new) auto
  have cause: "\<exists>namespace name. SplitMetaNamespaceKey env key = Inr (namespace, name) \<and>
        (lister_Get w namespace name = Inl err \<and> \<not> IsNotFound err
         \<or> (\<exists>obj. lister_Get w namespace name = Inr obj) \<and>
            api_fault w (api_calls w) = Some err)"
    using sync by (cases rule: syncHandler_cases [of env key ?w0]) auto
  from r w' fr new forget cause show ?thesis
    by (simp add: effect_defs next_delay_def)
qed


theorem C2_refused_update_witness:
  "wq_feed failing_world = (StringItem ''ns/foo'', False) # [] \<and>
   fst (syncHandler sample_env (failing_world\<lparr>wq_feed := []\<rparr>) ''ns/foo'')
     = Returns (Some (OtherError ''conflict'')) \<and>
   fst (processNextWorkItem sample_env failing_world) = Returns True \<and>
   calls_since failing_world (snd (processNextWorkItem sample_env failing_world)) =
     [StatusUpdate ''ns'' (LocalRef 0) (foo ''Running''),
      QAddRateLimited (StringItem ''ns/foo''), QDone (StringItem ''ns/foo''),
      ErrorSink (OtherError ''error syncing 'ns/foo': conflict, requeuing'')] \<and>
   wq_failures failing_world (StringItem ''ns/foo'') = 2 \<and>
   wq_failures (snd (processNextWorkItem sample_env failing_world)) (StringItem ''ns/foo'') = 3"
proof -
  let ?p = "processNextWorkItem sample_env failing_world"
  let ?s = "syncHandler sample_env (failing_world\<lparr>wq_feed := []\<rparr>) ''ns/foo''"
  have feed: "wq_feed failing_world = (StringItem ''ns/foo'', False) # []"
    by (simp add: failing_world_def sample_defs)
  have res: "fst ?s = Returns (Some (OtherError ''conflict''))"
    by (simp add: failing_world_def sample_defs run_defs effect_defs)
  then have sync: "?s = (Returns (Some (OtherError ''conflict'')), snd ?s)"
    by (metis prod.collapse)
  have run: "?p = (fst ?p, snd ?p)" by simp
  have calls: "calls_since failing_world (snd ?p) =
     [StatusUpdate ''ns'' (LocalRef 0) (foo ''Running''),
      QAddRateLimited (StringItem ''ns/foo''), QDone (StringItem ''ns/foo''),
      ErrorSink (OtherError ''error syncing 'ns/foo': conflict, requeuing'')]"
    by (simp add: failing_world_def sample_defs run_defs effect_defs calls_since_def)
  have before: "wq_failures failing_world (StringItem ''ns/foo'') = 2"
    by (simp add: failing_world_def sample_defs)
  from C2_sync_error_is_requeued [OF feed sync run] feed res calls before show ?thesis by simp
qed

subsection \<open>C3\<close>

text \<open>
  Claim C3. When the dequeued key names an object the lister finds and the API server
  accepts the status update, the round makes the five calls listed: the status update, one
  event of type Normal with reason Synced, \<open>Forget\<close> of the key, the log line and
  \<open>Done\<close>. That event is the only event of the round, and the delay of the key's next
  requeue is the base delay again (the base delay being at most the cap).
\<close>

theorem C3_synced_event_and_backoff_reset:
  assumes feed: "wq_feed w = (StringItem key, False) # rest"
    and split: "SplitMetaNamespaceKey env key = Inr (namespace, name)"
    and found: "lister_Get w namespace name = Inr obj"
    and accepted: "api_fault w (api_calls w) = None"
    and base: "baseDelay env \<le> maxDelay env"
    and run: "processNextWorkItem env w = (r, w')"
  shows "r = Returns True \<and>
     (\<exists>orig. cache w (namespace, name) = Some orig \<and>
        calls_since w w' =
          [StatusUpdate (Namespace (Meta orig)) (LocalRef (length (locals w)))
             (set_Phase ''Running'' orig),
           EventRecorded obj ''Normal'' ''Synced'' ''SQLiteInstance synced successfully'',
           QForget (StringItem key), LogInfo ''Successfully synced'',
           QDone (StringItem key)]) \<and>
     filter is_event (calls_since w w') =
       [EventRecorded obj ''Normal'' ''Synced'' ''SQLiteInstance synced successfully''] \<and>
     wq_failures w' (StringItem key) = 0 \<and>
     next_delay env w' (StringItem key) = baseDelay env"
  using run feed split found accepted base
  by (cases rule: process_round_cases)
     (auto simp: effect_defs next_delay_def backoff_delay_def EventTypeNormal_def
        SuccessSynced_def MessageResourceSynced_def)

theorem C3_found_object_witness:
  "wq_feed found_world = (StringItem ''ns/foo'', False) # [] \<and>
   SplitMetaNamespaceKey sample_env ''ns/foo'' = Inr (''ns'', ''foo'') \<and>
   lister_Get found_world ''ns'' ''foo'' = Inr (CacheRef ''ns'' ''foo'') \<and>
   api_fault found_world (api_calls found_world) = None \<and>
   baseDelay sample_env \<le> maxDelay sample_env \<and>
   fst (processNextWorkItem sample_env found_world) = Returns True \<and>
   calls_since found_world (snd (processNextWorkItem sample_env found_world)) =
     [StatusUpdate ''ns'' (LocalRef 0) (foo ''Running''),
      EventRecorded (CacheRef ''ns'' ''foo'') ''Normal'' ''Synced''
        ''SQLiteInstance synced successfully'',
      QForget (StringItem ''ns/foo''), LogInfo ''Successfully synced'',
      QDone (StringItem ''ns/foo'')] \<and>
   filter is_event (calls_since found_world (snd (processNextWorkItem sample_env found_world))) =
     [EventRecorded (CacheRef ''ns'' ''foo'') ''Normal'' ''Synced''
        ''SQLiteInstance synced successfully''] \<and>
   next_delay sample_env found_world (StringItem ''ns/foo'') = 20 \<and>
   next_delay sample_env (snd (processNextWorkItem sample_env found_world))
     (StringItem ''ns/foo'') = 5"
proof -
  let ?p = "processNextWorkItem sample_env found_world"
  have feed: "wq_feed found_world = (StringItem ''ns/foo'', False) # []"
    by (simp add: found_world_def sample_defs)
  have split: "SplitMetaNamespaceKey sample_env ''ns/foo'' = Inr (''ns'', ''foo'')"
    by (simp add: sample_defs)
  have found: "lister_Get found_world ''ns'' ''foo'' = Inr (CacheRef ''ns'' ''foo'')"
    by (simp add: found_world_def sample_defs lister_Get_def)
  have accepted: "api_fault found_world (api_calls found_world) = None"
    by (simp add: found_world_def sample_defs)
  have base: "baseDelay sample_env \<le> maxDelay sample_env"
    by (simp add: sample_defs)
  have run: "?p = (fst ?p, snd ?p)" by simp
  have calls: "calls_since found_world (snd ?p) =
     [StatusUpdate ''ns'' (LocalRef 0) (foo ''Running''),
      EventRecorded (CacheRef ''ns'' ''foo'') ''Normal'' ''Synced''
        ''SQLiteInstance synced successfully'',
      QForget (StringItem ''ns/foo''), LogInfo ''Successfully synced'',
      QDone (StringItem ''ns/foo'')]"
    by (simp add: found_world_def sample_defs run_defs effect_defs calls_since_def)
  have before: "next_delay sample_env found_world (StringItem ''ns/foo'') = 20"
    by (simp add: found_world_def sample_defs next_delay_def backoff_delay_def)
  from C3_synced_event_and_backoff_reset [OF feed split found accepted base run] feed split found accepted base
    calls before
  show ?thesis by (simp add: sample_env_def)
qed

subsection \<open>C4\<close>

text \<open>
  Claim C4, as stated, fails: for an object in phase Unknown the round asks the API server
  to go from Unknown to Running, which is no step of the state machine
  \<open>Unknown \<rightarrow> Pending \<rightarrow> Running\<close> (the step from Unknown leads to Pending).
\<close>

theorem C4_unknown_goes_to_running_counterexample:
  "phase_transitions unknown_world
     (calls_since unknown_world (snd (processNextWorkItem sample_env unknown_world)))
     = [(''Unknown'', ''Running'')] \<and>
   \<not> spec_phase_write_ok ''Unknown'' ''Running'' \<and>
   fst (processNextWorkItem sample_env unknown_world) = Returns True"
  by (simp add: unknown_world_def sample_defs run_defs effect_defs calls_since_def
        spec_phase_write_ok_def spec_phase_step_def)

text \<open>
  Claim C4, amended. A round whose dequeued key names an object the lister finds issues
  exactly one write, a status update that carries the phase Running for that object,
  whatever its phase was. Every status update a round issues is of this kind; when the API
  server accepts it the round is a successful one (the key is forgotten, not requeued). No
  other phase is written, so no terminal or deleted state. A key whose object is not found
  is handled without any write.
\<close>

theorem C4_every_status_write_sets_Running:
  assumes run: "processNextWorkItem env w = (r, w')"
  shows "(\<forall>key rest namespace name found.
        wq_feed w = (StringItem key, False) # rest \<and>
        SplitMetaNamespaceKey env key = Inr (namespace, name) \<and>
        lister_Get w namespace name = Inr found \<longrightarrow>
        (\<exists>orig. cache w (namespace, name) = Some orig \<and>
           filter is_write (calls_since w w') =
             [StatusUpdate (Namespace (Meta orig)) (LocalRef (length (locals w)))
                (set_Phase ''Running'' orig)] \<and>
           StatusUpdate (Namespace (Meta orig)) (LocalRef (length (locals w)))
                (set_Phase ''Running'' orig) \<in> set (calls_since w w') \<and>
           Phase (Status (set_Phase ''Running'' orig)) = ''Running'' \<and>
           (api_fault w (api_calls w) = None \<longrightarrow>
              QForget (StringItem key) \<in> set (calls_since w w') \<and>
              QAddRateLimited (StringItem key) \<notin> set (calls_since w w')) \<and>
           (api_fault w (api_calls w) \<noteq> None \<longrightarrow>
              QAddRateLimited (StringItem key) \<in> set (calls_since w w') \<and>
              QForget (StringItem key) \<notin> set (calls_since w w')))) \<and>
     (\<forall>ns p obj. StatusUpdate ns p obj \<in> set (calls_since w w') \<longrightarrow>
        Phase (Status obj) = ''Running'' \<and>
        (\<exists>key rest namespace name orig.
           wq_feed w = (StringItem key, False) # rest \<and>
           SplitMetaNamespaceKey env key = Inr (namespace, name) \<and>
           cache w (namespace, name) = Some orig \<and> obj = set_Phase ''Running'' orig \<and>
           filter is_write (calls_since w w') = [StatusUpdate ns p obj] \<and>
           (api_fault w (api_calls w) = None \<longrightarrow>
              QForget (StringItem key) \<in> set (calls_since w w') \<and>
              QAddRateLimited (StringItem key) \<notin> set (calls_since w w')))) \<and>
     (\<forall>key rest namespace name err.
        wq_feed w = (StringItem key, False) # rest \<and>
        SplitMetaNamespaceKey env key = Inr (namespace, name) \<and>
        lister_Get w namespace name = Inl err \<and> IsNotFound err \<longrightarrow>
        filter is_write (calls_since w w') = [])"
proof -
  have found: "\<exists>orig. cache w (namespace, name) = Some orig \<and>
           filter is_write (calls_since w w') =
             [StatusUpdate (Namespace (Meta orig)) (LocalRef (length (locals w)))
                (set_Phase ''Running'' orig)] \<and>
           StatusUpdate (Namespace (Meta orig)) (LocalRef (length (locals w)))
                (set_Phase ''Running'' orig) \<in> set (calls_since w w') \<and>
           Phase (Status (set_Phase ''Running'' orig)) = ''Running'' \<and>
           (api_fault w (api_calls w) = None \<longrightarrow>
              QForget (StringItem key) \<in> set (calls_since w w') \<and>
              QAddRateLimited (StringItem key) \<notin> set (calls_since w w')) \<and>
           (api_fault w (api_calls w) \<noteq> None \<longrightarrow>
              QAddRateLimited (StringItem key) \<in> set (calls_since w w') \<and>
              QForget (StringItem key) \<notin> set (calls_since w w'))"
    if "wq_feed w = (StringItem key, False) # rest"
      and "SplitMetaNamespaceKey env key = Inr (namespace, name)"
      and "lister_Get w namespace name = Inr found"
    for key rest namespace name found
    using run that
    by (cases rule: process_round_cases)
       (auto simp: effect_defs set_Phase_def calls_since_def)
  have written: "Phase (Status obj) = ''Running'' \<and>
        (\<exists>key rest namespace name orig.
           wq_feed w = (StringItem key, False) # rest \<and>
           SplitMetaNamespaceKey env key = Inr (namespace, name) \<and>
           cache w (namespace, name) = Some orig \<and> obj = set_Phase ''Running'' orig \<and>
           filter is_write (calls_since w w') = [StatusUpdate ns p obj] \<and>
           (api_fault w (api_calls w) = None \<longrightarrow>
              QForget (StringItem key) \<in> set (calls_since w w') \<and>
              QAddRateLimited (StringItem key) \<notin> set (calls_since w w')))"
    if "StatusUpdate ns p obj \<in> set (calls_since w w')" for ns p obj
    using run that
    by (cases rule: process_round_cases)
       (auto simp: effect_defs set_Phase_def calls_since_def)
  have absent: "filter is_write (calls_since w w') = []"
    if "wq_feed w = (StringItem key, False) # rest"
      and "SplitMetaNamespaceKey env key = Inr (namespace, name)"
      and "lister_Get w namespace name = Inl err" and "IsNotFound err"
    for key rest namespace name err
    using run that
    by (cases rule: process_round_cases)
       (auto simp: effect_defs calls_since_def)
  from found written absent show ?thesis by blast
qed

theorem C4_running_and_absent_witness:
  "wq_feed unknown_world = (StringItem ''ns/foo'', False) # [] \<and>
   SplitMetaNamespaceKey sample_env ''ns/foo'' = Inr (''ns'', ''foo'') \<and>
   lister_Get unknown_world ''ns'' ''foo'' = Inr (CacheRef ''ns'' ''foo'') \<and>
   cache unknown_world (''ns'', ''foo'') = Some (foo ''Unknown'') \<and>
   filter is_write
     (calls_since unknown_world (snd (processNextWorkItem sample_env unknown_world)))
     = [StatusUpdate ''ns'' (LocalRef 0) (foo ''Running'')] \<and>
   StatusUpdate ''ns'' (LocalRef 0) (foo ''Running'')
     \<in> set (calls_since unknown_world (snd (processNextWorkItem sample_env unknown_world))) \<and>
   Phase (Status (foo ''Running'')) = ''Running'' \<and>
   wq_feed absent_world = (StringItem ''ns/foo'', False) # [] \<and>
   lister_Get absent_world ''ns'' ''foo'' = Inl (NotFoundError ''sqliteinstance foo not found'') \<and>
   IsNotFound (NotFoundError ''sqliteinstance foo not found'') \<and>
   filter is_write
     (calls_since absent_world (snd (processNextWorkItem sample_env absent_world))) = []"
proof -
  let ?p = "processNextWorkItem sample_env unknown_world"
  let ?q = "processNextWorkItem sample_env absent_world"
  have run_p: "?p = (fst ?p, snd ?p)" and run_q: "?q = (fst ?q, snd ?q)" by simp_all
  have feed_p: "wq_feed unknown_world = (StringItem ''ns/foo'', False) # []"
    by (simp add: unknown_world_def sample_defs)
  have split: "SplitMetaNamespaceKey sample_env ''ns/foo'' = Inr (''ns'', ''foo'')"
    by (simp add: sample_defs)
  have found: "lister_Get unknown_world ''ns'' ''foo'' = Inr (CacheRef ''ns'' ''foo'')"
    by (simp add: unknown_world_def sample_defs lister_Get_def)
  have store: "cache unknown_world (''ns'', ''foo'') = Some (foo ''Unknown'')"
    by (simp add: unknown_world_def sample_defs)
  have fresh: "length (locals unknown_world) = 0"
    by (simp add: unknown_world_def sample_defs)
  have running: "set_Phase ''Running'' (foo ''Unknown'') = foo ''Running''"
    and ns: "Namespace (Meta (foo ''Unknown'')) = ''ns''"
    by (simp_all add: set_Phase_def foo_def)
  from C4_every_status_write_sets_Running [OF run_p] feed_p split found
  obtain orig where "cache unknown_world (''ns'', ''foo'') = Some orig"
    and "filter is_write (calls_since unknown_world (snd ?p)) =
       [StatusUpdate (Namespace (Meta orig)) (LocalRef (length (locals unknown_world)))
          (set_Phase ''Running'' orig)]"
    and "StatusUpdate (Namespace (Meta orig)) (LocalRef (length (locals unknown_world)))
          (set_Phase ''Running'' orig) \<in> set (calls_since unknown_world (snd ?p))"
    and "Phase (Status (set_Phase ''Running'' orig)) = ''Running''"
    by blast
  with store fresh running ns
  have writes: "filter is_write (calls_since unknown_world (snd ?p))
      = [StatusUpdate ''ns'' (LocalRef 0) (foo ''Running'')]"
    and call: "StatusUpdate ''ns'' (LocalRef 0) (foo ''Running'')
      \<in> set (calls_since unknown_world (snd ?p))"
    and phase: "Phase (Status (foo ''Running'')) = ''Running''"
    by simp_all
  have feed_q: "wq_feed absent_world = (StringItem ''ns/foo'', False) # []"
    by (simp add: absent_world_def sample_defs)
  have look: "lister_Get absent_world ''ns'' ''foo'' =
      Inl (NotFoundError ''sqliteinstance foo not found'')"
    by (simp add: absent_world_def sample_defs lister_Get_def)
  have nf: "IsNotFound (NotFoundError ''sqliteinstance foo not found'')" by simp
  from C4_every_status_write_sets_Running [OF run_q] feed_q split look nf
  have none: "filter is_write (calls_since absent_world (snd ?q)) = []" by blast
  from feed_p split found store writes call phase feed_q look nf none
  show ?thesis by simp
qed

subsection \<open>C5\<close>

text \<open>
  Claim C5. A round of a worker leaves the store as it was, and the objects allocated
  before it too. Each status update of the round is given a pointer to an object allocated
  in this round (the deep copy), which is the cached object with \<open>Status.Phase\<close> set
  to Running: \<open>Spec\<close>, \<open>ObjectMeta\<close> and \<open>TypeMeta\<close> are those of the
  cached object. The round never calls the generic \<open>Update\<close>.
\<close>

theorem C5_cached_object_untouched:
  assumes run: "processNextWorkItem env w = (r, w')"
  shows "cache w' = cache w \<and>
     take (length (locals w)) (locals w') = locals w \<and>
     (\<forall>ns p obj. StatusUpdate ns p obj \<in> set (calls_since w w') \<longrightarrow>
        (\<exists>namespace name orig.
           cache w (namespace, name) = Some orig \<and>
           p = LocalRef (length (locals w)) \<and> deref w p = None \<and> deref w' p = Some obj \<and>
           obj = orig\<lparr>Status := (Status orig)\<lparr>Phase := ''Running''\<rparr>\<rparr> \<and>
           Spec obj = Spec orig \<and> Meta obj = Meta orig \<and> Kind obj = Kind orig \<and>
           APIVersion obj = APIVersion orig)) \<and>
     (\<forall>ns p obj. ObjectUpdate ns p obj \<notin> set (calls_since w w'))"
  using run
  by (cases rule: process_round_cases)
     (auto simp: effect_defs set_Phase_def calls_since_def nth_append)

theorem C5_found_object_witness:
  "cache (snd (processNextWorkItem sample_env found_world)) = cache found_world \<and>
   cache found_world (''ns'', ''foo'') = Some (foo ''Pending'') \<and>
   calls_since found_world (snd (processNextWorkItem sample_env found_world)) =
     [StatusUpdate ''ns'' (LocalRef 0) (foo ''Running''),
      EventRecorded (CacheRef ''ns'' ''foo'') ''Normal'' ''Synced''
        ''SQLiteInstance synced successfully'',
      QForget (StringItem ''ns/foo''), LogInfo ''Successfully synced'',
      QDone (StringItem ''ns/foo'')] \<and>
   deref found_world (LocalRef 0) = None \<and>
   deref (snd (processNextWorkItem sample_env found_world)) (LocalRef 0)
     = Some (foo ''Running'') \<and>
   deref (snd (processNextWorkItem sample_env found_world)) (CacheRef ''ns'' ''foo'')
     = Some (foo ''Pending'') \<and>
   Spec (foo ''Running'') = Spec (foo ''Pending'')"
proof -
  let ?p = "processNextWorkItem sample_env found_world"
  have run: "?p = (fst ?p, snd ?p)" by simp
  have store: "cache found_world (''ns'', ''foo'') = Some (foo ''Pending'')"
    by (simp add: found_world_def sample_defs)
  have calls: "calls_since found_world (snd ?p) =
     [StatusUpdate ''ns'' (LocalRef 0) (foo ''Running''),
      EventRecorded (CacheRef ''ns'' ''foo'') ''Normal'' ''Synced''
        ''SQLiteInstance synced successfully'',
      QForget (StringItem ''ns/foo''), LogInfo ''Successfully synced'',
      QDone (StringItem ''ns/foo'')]"
    by (simp add: found_world_def sample_defs run_defs effect_defs calls_since_def)
  have copy: "deref (snd ?p) (LocalRef 0) = Some (foo ''Running'')"
    by (simp add: found_world_def sample_defs run_defs effect_defs)
  have fresh: "deref found_world (LocalRef 0) = None"
    by (simp add: found_world_def sample_defs)
  have spec: "Spec (foo ''Running'') = Spec (foo ''Pending'')"
    by (simp add: foo_def)
  from C5_cached_object_untouched [OF run] have "cache (snd ?p) = cache found_world" by blast
  with store calls copy fresh spec show ?thesis by simp
qed

subsection \<open>C6\<close>

text \<open>
  Claim C6. When the wait for the cache sync fails (the cancellation came first),
  \<open>Run\<close> returns the error, and its calls are the two log lines and the deferred
  \<open>ShutDown\<close>: no worker is started. When the wait succeeds, the workers are started
  after it, as many as asked for.
\<close>

theorem C6_no_workers_without_cache_sync:
  assumes run: "Run env workers w = (r, w')"
  shows "(\<not> WaitForCacheSync env \<longrightarrow>
        r = Returns (Some (Errorf ''failed to wait for caches to sync'')) \<and>
        calls_since w w' =
          [LogInfo ''Starting KubeLiteDB controller'',
           LogInfo ''Waiting for informer caches to sync'', QShutDown] \<and>
        count_list (calls_since w w') WorkerStarted = 0) \<and>
     (WaitForCacheSync env \<longrightarrow>
        r = (if ctx_Done env then Returns None else Blocks) \<and>
        calls_since w w' =
          [LogInfo ''Starting KubeLiteDB controller'',
           LogInfo ''Waiting for informer caches to sync'', LogInfo ''Starting workers'']
          @ replicate (nat workers) WorkerStarted @ [LogInfo ''Started workers'']
          @ (if ctx_Done env then [LogInfo ''Shutting down workers'', QShutDown] else []) \<and>
        count_list (calls_since w w') WorkerStarted = nat workers)"
proof (cases "WaitForCacheSync env")
  case False
  with run Run_unsynced [OF False, of workers w] show ?thesis by auto
next
  case True
  from run Run_synced [OF True, of workers w]
  have r: "r = (if ctx_Done env then Returns None else Blocks)"
    and calls: "calls_since w w' =
          [LogInfo ''Starting KubeLiteDB controller'',
           LogInfo ''Waiting for informer caches to sync'', LogInfo ''Starting workers'']
          @ replicate (nat workers) WorkerStarted @ [LogInfo ''Started workers'']
          @ (if ctx_Done env then [LogInfo ''Shutting down workers'', QShutDown] else [])"
    by auto
  have "count_list (calls_since w w') WorkerStarted = nat workers"
    unfolding calls by (simp add: count_replicate_WorkerStarted)
  with True r calls show ?thesis by simp
qed

theorem C6_unsynced_witness:
  "\<not> WaitForCacheSync unsynced_env \<and>
   fst (Run unsynced_env 3 absent_world)
     = Returns (Some (Errorf ''failed to wait for caches to sync'')) \<and>
   calls_since absent_world (snd (Run unsynced_env 3 absent_world)) =
     [LogInfo ''Starting KubeLiteDB controller'',
      LogInfo ''Waiting for informer caches to sync'', QShutDown] \<and>
   count_list (calls_since absent_world (snd (Run unsynced_env 3 absent_world))) WorkerStarted = 0 \<and>
   WaitForCacheSync sample_env \<and>
   count_list (calls_since absent_world (snd (Run sample_env 3 absent_world))) WorkerStarted = 3"
proof -
  let ?p = "Run unsynced_env 3 absent_world"
  let ?q = "Run sample_env 3 absent_world"
  have no: "\<not> WaitForCacheSync unsynced_env" by (simp add: unsynced_env_def sample_defs)
  have yes: "WaitForCacheSync sample_env" by (simp add: sample_defs)
  have run_p: "?p = (fst ?p, snd ?p)" and run_q: "?q = (fst ?q, snd ?q)" by simp_all
  from C6_no_workers_without_cache_sync [OF run_p] no
  have a: "fst ?p = Returns (Some (Errorf ''failed to wait for caches to sync'')) \<and>
     calls_since absent_world (snd ?p) =
       [LogInfo ''Starting KubeLiteDB controller'',
        LogInfo ''Waiting for informer caches to sync'', QShutDown] \<and>
     count_list (calls_since absent_world (snd ?p)) WorkerStarted = 0"
    by blast
  from C6_no_workers_without_cache_sync [OF run_q] yes
  have b: "count_list (calls_since absent_world (snd ?q)) WorkerStarted = nat 3"
    by blast
  from a b no yes show ?thesis by simp
qed

subsection \<open>C7\<close>

text \<open>
  Claim C7. Whatever item a \<open>Get\<close> that is not a shutdown returns, and whatever
  path the round takes (no string, malformed key, object not found, error of the sync,
  success), the round returns, and when it returns \<open>Done\<close> has been called exactly
  once, on that item.
\<close>

theorem C7_Done_exactly_once:
  assumes feed: "wq_feed w = (obj, False) # rest"
    and run: "processNextWorkItem env w = (r, w')"
  shows "r = Returns True \<and> count_list (calls_since w w') (QDone obj) = 1 \<and>
     (\<forall>x. QDone x \<in> set (calls_since w w') \<longrightarrow> x = obj)"
proof -
  from process_calls [OF feed run] obtain new tail where
    r: "r = Returns True" and calls: "calls_since w w' = new @ tail"
    and new: "list_all sync_call new"
    and tail: "tail = [QForget obj, LogInfo ''Successfully synced'', QDone obj]
        \<or> (\<exists>e. tail = [QAddRateLimited obj, QDone obj, ErrorSink e])
        \<or> (\<exists>e. tail = [QForget obj, ErrorSink e, QDone obj])"
    by blast
  from tail have "count_list tail (QDone obj) = 1" and "\<forall>x. QDone x \<in> set tail \<longrightarrow> x = obj"
    by auto
  with r calls sync_call_count_Done [OF new] sync_call_not_Done [OF new] show ?thesis
    by auto
qed

theorem C7_failing_round_witness:
  "wq_feed failing_world = (StringItem ''ns/foo'', False) # [] \<and>
   fst (processNextWorkItem sample_env failing_world) = Returns True \<and>
   count_list (calls_since failing_world (snd (processNextWorkItem sample_env failing_world)))
     (QDone (StringItem ''ns/foo'')) = 1"
proof -
  let ?p = "processNextWorkItem sample_env failing_world"
  have feed: "wq_feed failing_world = (StringItem ''ns/foo'', False) # []"
    by (simp add: failing_world_def sample_defs)
  have run: "?p = (fst ?p, snd ?p)" by simp
  from C7_Done_exactly_once [OF feed run] feed show ?thesis by simp
qed

subsection \<open>C8\<close>

text \<open>
  Claim C8. A round returns false when \<open>Get\<close> reports the shutdown and true on every
  other path. So how \<open>runWorker\<close> ends depends on the answers of \<open>Get\<close>
  alone: it returns when one of them is the shutdown, after a round (with its \<open>Done\<close>)
  for each item before it, whether the syncs failed or not; with no shutdown in the feed
  it has consumed the whole feed and waits in \<open>Get\<close>.
\<close>

theorem C8_worker_stops_at_shutdown_only:
  assumes run: "runWorker env w = (r, w')"
  shows "(\<forall>obj stop rest r1 w1.
        wq_feed w = (obj, stop) # rest \<and> processNextWorkItem env w = (r1, w1)
        \<longrightarrow> r1 = Returns (\<not> stop)) \<and>
     r = (if list_ex snd (wq_feed w) then Returns () else Blocks) \<and>
     done_items (calls_since w w') = map fst (takeWhile (\<lambda>p. \<not> snd p) (wq_feed w)) \<and>
     wq_feed w' = tl (dropWhile (\<lambda>p. \<not> snd p) (wq_feed w))"
proof -
  have round: "r1 = Returns (\<not> stop)"
    if "wq_feed w = (obj, stop) # rest" and "processNextWorkItem env w = (r1, w1)"
    for obj stop rest r1 w1
  proof (cases stop)
    case True
    with that show ?thesis by (simp add: process_shutdown)
  next
    case False
    with that process_done [of w obj rest env r1 w1] show ?thesis by simp
  qed
  from runWorker_shape [OF refl run] obtain new where
    "r = (if list_ex snd (wq_feed w) then Returns () else Blocks)"
    and "wq_feed w' = tl (dropWhile (\<lambda>p. \<not> snd p) (wq_feed w))"
    and "trace w' = trace w @ new"
    and "done_items new = map fst (takeWhile (\<lambda>p. \<not> snd p) (wq_feed w))"
    by blast
  with round show ?thesis by (simp add: calls_since_def)
qed

theorem C8_busy_queue_witness:
  "fst (runWorker sample_env busy_world) = Returns () \<and>
   done_items (calls_since busy_world (snd (runWorker sample_env busy_world))) =
     [StringItem ''ns/foo'', OtherItem ''42'', StringItem ''ns/foo''] \<and>
   wq_feed (snd (runWorker sample_env busy_world)) = [(StringItem ''ns/bar'', False)] \<and>
   fst (processNextWorkItem sample_env busy_world) = Returns True \<and>
   fst (syncHandler sample_env (busy_world\<lparr>wq_feed := []\<rparr>) ''ns/foo'')
     = Returns (Some (OtherError ''conflict''))"
proof -
  let ?p = "runWorker sample_env busy_world"
  let ?q = "processNextWorkItem sample_env busy_world"
  have run: "?p = (fst ?p, snd ?p)" and round: "?q = (fst ?q, snd ?q)" by simp_all
  have feed: "wq_feed busy_world =
     (StringItem ''ns/foo'', False) #
     [(OtherItem ''42'', False), (StringItem ''ns/foo'', False),
      (StringItem [], True), (StringItem ''ns/bar'', False)]"
    by (simp add: busy_world_def sample_defs)
  have failed: "fst (syncHandler sample_env (busy_world\<lparr>wq_feed := []\<rparr>) ''ns/foo'')
     = Returns (Some (OtherError ''conflict''))"
    by (simp add: busy_world_def sample_defs run_defs effect_defs)
  from C8_worker_stops_at_shutdown_only [OF run] feed round have "fst ?q = Returns (\<not> False)" by blast
  with C8_worker_stops_at_shutdown_only [OF run] feed failed show ?thesis by simp
qed

subsection \<open>C9\<close>

text \<open>
  Claim C9. Each of the three handlers makes one call for the object it is given, the
  update handler for the new object whatever the old one is: \<open>Add\<close> of the key the
  key function derives or, when the derivation fails, the report of the error and no
  \<open>Add\<close>. The bridge goes on after a failure: a list of notifications gives one
  such call for each of them, in order.
\<close>

theorem C9_handlers_enqueue_the_key:
  "AddFunc env w obj = record_call w (bridge_call env obj) \<and>
   UpdateFunc env w old obj = record_call w (bridge_call env obj) \<and>
   DeleteFunc env w obj = record_call w (bridge_call env obj) \<and>
   bridge_call env obj =
     (case MetaNamespaceKeyFunc env obj of
        Inl err \<Rightarrow> ErrorSink err
      | Inr key \<Rightarrow> QAdd (StringItem key)) \<and>
   dispatch env w ns = w\<lparr>trace := trace w @ map (\<lambda>n. bridge_call env (subject n)) ns\<rparr>"
proof -
  have enqueue: "enqueueSQLiteInstance env w obj = record_call w (bridge_call env obj)"
    for w obj
    by (simp add: enqueueSQLiteInstance_def bridge_call_def HandleError_def workqueue_Add_def
          split: sum.splits)
  have step: "handle env w n = record_call w (bridge_call env (subject n))" for w n
    by (cases n) (simp_all add: AddFunc_def UpdateFunc_def DeleteFunc_def enqueue)
  have "dispatch env w ns = w\<lparr>trace := trace w @ map (\<lambda>n. bridge_call env (subject n)) ns\<rparr>"
    by (induction ns arbitrary: w) (simp_all add: step record_call_def)
  with enqueue show ?thesis
    by (simp add: AddFunc_def UpdateFunc_def DeleteFunc_def bridge_call_def)
qed

theorem C9_bridge_witness:
  "calls_since absent_world
     (dispatch sample_env absent_world
        [Added (Object (foo [])),
         Updated (Opaque ''old'') (Object (foo ''Running'')),
         Deleted (Tombstone ''ns/foo'' (foo ''Running'')),
         Added (ExplicitKey ''ns/bar''),
         Deleted (Object (foo ''Running''))])
   = [QAdd (StringItem ''ns/foo''), QAdd (StringItem ''ns/foo''),
      ErrorSink
        (OtherError ''object has no meta: object does not implement the Object interfaces''),
      QAdd (StringItem ''ns/bar''), QAdd (StringItem ''ns/foo'')]"
proof -
  let ?ns = "[Added (Object (foo [])),
         Updated (Opaque ''old'') (Object (foo ''Running'')),
         Deleted (Tombstone ''ns/foo'' (foo ''Running'')),
         Added (ExplicitKey ''ns/bar''),
         Deleted (Object (foo ''Running''))]"
  from C9_handlers_enqueue_the_key [of sample_env absent_world _ _ ?ns]
  have d: "dispatch sample_env absent_world ?ns =
      absent_world\<lparr>trace := trace absent_world
         @ map (\<lambda>n. bridge_call sample_env (subject n)) ?ns\<rparr>"
    by blast
  show ?thesis
    unfolding d by (simp add: calls_since_def bridge_call_def sample_defs Errorf_def)
qed

subsection \<open>C10\<close>

text \<open>
  Claim C10. When the dequeued item is no string, the round is \<open>Forget\<close> of the
  item, the report of the error and \<open>Done\<close>, and it returns true. The state after
  the round is given in full: it depends neither on the key functions nor on the store,
  the API server is not called, so \<open>syncHandler\<close> has not run.
\<close>

theorem C10_non_string_item_is_dropped:
  assumes feed: "wq_feed w = (OtherItem v, False) # rest"
  shows "processNextWorkItem env w =
     (Returns True,
      w\<lparr>wq_feed := rest,
        wq_failures := (wq_failures w)(OtherItem v := 0),
        trace := trace w @
          [QForget (OtherItem v),
           ErrorSink (Errorf (''expected string in workqueue but got '' @ v)),
           QDone (OtherItem v)]\<rparr>)"
  using process_other [OF feed, of env] by (simp add: effect_defs)

theorem C10_non_string_witness:
  "wq_feed non_string_world = (OtherItem ''42'', False) # [] \<and>
   fst (processNextWorkItem sample_env non_string_world) = Returns True \<and>
   trace (snd (processNextWorkItem sample_env non_string_world)) =
     [QForget (OtherItem ''42''),
      ErrorSink (OtherError ''expected string in workqueue but got 42''),
      QDone (OtherItem ''42'')] \<and>
   wq_feed (snd (processNextWorkItem sample_env non_string_world)) = []"
proof -
  have feed: "wq_feed non_string_world = (OtherItem ''42'', False) # []"
    by (simp add: non_string_world_def sample_defs)
  have "trace non_string_world = []"
    by (simp add: non_string_world_def sample_defs)
  with C10_non_string_item_is_dropped [OF feed, of sample_env] feed show ?thesis by (simp add: Errorf_def)
qed

end
